theory Spec2Isabelle
  imports Complex_Main
begin

section \<open>The swing trend engine of \<^verbatim>\<open>swingtrend/Swing.py\<close>\<close>

text \<open>
  The class \<^verbatim>\<open>Swing\<close> consumes one bar (timestamp, high, low, close) at a time through
  \<^verbatim>\<open>identify\<close> and keeps the trend, the tracked extremes, the pending swing point and the
  change-of-character level in its attributes. The embedding below keeps the attribute
  names of the class. Prices are Python floats, taken here as real numbers; timestamps are
  ordinals; an attribute that may hold \<^verbatim>\<open>None\<close> is an option.
\<close>

subsection \<open>Data\<close>

type_synonym timestamp = int

datatype trend_dir = UP | DOWN

datatype error = ValueError | KeyError | TypeError | ZeroDivisionError

text \<open>A row of the price table handed to \<^verbatim>\<open>run\<close>: index, open, high, low, close.\<close>

type_synonym row = "timestamp \<times> real \<times> real \<times> real \<times> real"

text \<open>One recorded line: \<^verbatim>\<open>((coc_dt, coc), (line_end_dt, coc))\<close>.\<close>

type_synonym plot_line = "(timestamp option \<times> real option) \<times> (timestamp \<times> real option)"

text \<open>
  A call of one of the two hooks, with its six positional arguments in the order of the
  call: \<^verbatim>\<open>on_breakout(symbol, dt, trend, close, sph, coc)\<close> and
  \<^verbatim>\<open>on_reversal(symbol, dt, trend, close, coc, price_level)\<close>.
\<close>

datatype event =
    OnBreakout "string option" timestamp "trend_dir option" real "real option" "real option"
  | OnReversal "string option" timestamp "trend_dir option" real "real option" "real option"

text \<open>
  The attributes of an instance. An attribute is read through the instance, so one that
  was never assigned there has the value \<^verbatim>\<open>None\<close> of the class; the record holds each
  attribute as it is read. \<open>swing_dict\<close> holds the entries that \<^verbatim>\<open>pack\<close> keeps;
  \<open>swing\<close> adds the three that it deletes: the logger (of which only the debug level is
  kept) and the two hooks (of which only whether one is registered is kept; the calls
  made are returned by \<open>identify\<close>, and a hook is taken to return without touching the
  instance). \<^verbatim>\<open>plot_lines\<close> and \<^verbatim>\<open>plot_colors\<close> are created by \<^verbatim>\<open>run\<close>; before that
  they are held here as empty lists.
\<close>

record swing_dict =
  trend :: "trend_dir option"
  df :: "row list option"
  high :: "real option"
  low :: "real option"
  coc :: "real option"
  sph :: "real option"
  spl :: "real option"
  high_dt :: "timestamp option"
  low_dt :: "timestamp option"
  coc_dt :: "timestamp option"
  sph_dt :: "timestamp option"
  spl_dt :: "timestamp option"
  retrace_threshold :: "real option"
  sideways_threshold :: int
  symbol :: "string option"
  plot :: bool
  plot_lines :: "plot_line list"
  plot_colors :: "string list"
  bars_since :: int

record swing = swing_dict +
  debug :: bool
  on_reversal :: bool
  on_breakout :: bool

text \<open>
  What a call leaves behind: the instance as mutated and the hook calls made, and the
  exception when the call raised (the mutations done before it stay).
\<close>

datatype outcome =
    Return (post: swing) (emitted: "event list")
  | Raise (exc: error) (post: swing) (emitted: "event list")

subsection \<open>Python's tests on optional floats\<close>

text \<open>\<^verbatim>\<open>if x:\<close> on a float or \<^verbatim>\<open>None\<close>: false for \<^verbatim>\<open>None\<close> and for zero.\<close>

definition truthy :: "real option \<Rightarrow> bool" where
  "truthy x = (case x of None \<Rightarrow> False | Some v \<Rightarrow> v \<noteq> 0)"

text \<open>\<^verbatim>\<open>x and v > x\<close> and \<^verbatim>\<open>x and v < x\<close>.\<close>

definition and_gt :: "real option \<Rightarrow> real \<Rightarrow> bool" where
  "and_gt x v = (case x of None \<Rightarrow> False | Some y \<Rightarrow> y \<noteq> 0 \<and> v > y)"

definition and_lt :: "real option \<Rightarrow> real \<Rightarrow> bool" where
  "and_lt x v = (case x of None \<Rightarrow> False | Some y \<Rightarrow> y \<noteq> 0 \<and> v < y)"

text \<open>\<^verbatim>\<open>x is None or v < x\<close> and \<^verbatim>\<open>x is None or v > x\<close>.\<close>

definition none_or_lt :: "real option \<Rightarrow> real \<Rightarrow> bool" where
  "none_or_lt x v = (case x of None \<Rightarrow> True | Some y \<Rightarrow> v < y)"

definition none_or_gt :: "real option \<Rightarrow> real \<Rightarrow> bool" where
  "none_or_gt x v = (case x of None \<Rightarrow> True | Some y \<Rightarrow> v > y)"

text \<open>Float division: raises on a zero divisor.\<close>

definition py_div :: "real \<Rightarrow> real \<Rightarrow> error + real" where
  "py_div a b = (if b = 0 then Inl ZeroDivisionError else Inr (a / b))"

subsection \<open>Construction, \<^verbatim>\<open>is_sideways\<close>, \<^verbatim>\<open>reset\<close>\<close>

text \<open>
  \<^verbatim>\<open>Swing(retrace_threshold_pct, sideways_threshold, debug)\<close>. The threshold is stored as a
  fraction, and only when the percentage is truthy.
\<close>

definition init :: "real option \<Rightarrow> int \<Rightarrow> bool \<Rightarrow> swing" where
  "init retrace_threshold_pct sideways dbg =
     \<lparr> trend = None, df = None, high = None, low = None, coc = None, sph = None, spl = None,
       high_dt = None, low_dt = None, coc_dt = None, sph_dt = None, spl_dt = None,
       retrace_threshold =
         (case retrace_threshold_pct of
            None \<Rightarrow> None
          | Some p \<Rightarrow> if p \<noteq> 0 then Some (p / 100) else None),
       sideways_threshold = sideways,
       symbol = None,
       plot = False, plot_lines = [], plot_colors = [],
       bars_since = 0,
       debug = dbg, on_reversal = False, on_breakout = False \<rparr>"


definition reset :: "swing \<Rightarrow> swing" where
  "reset s =
     (let s1 = s\<lparr> high := None, low := None, trend := None, coc := None, sph := None,
                 spl := None, high_dt := None, low_dt := None, coc_dt := None,
                 sph_dt := None, spl_dt := None \<rparr>;
          s2 = s1\<lparr> bars_since := 0 \<rparr>
      in if plot s2 then s2\<lparr> df := None, plot_colors := [], plot_lines := [] \<rparr> else s2)"

subsection \<open>\<^verbatim>\<open>pack\<close> and \<^verbatim>\<open>unpack\<close>\<close>

text \<open>
  \<^verbatim>\<open>pack\<close> copies the instance dictionary and deletes the logger and the two hooks from
  the copy; \<^verbatim>\<open>unpack\<close> updates the instance dictionary with the entries given, and
  leaves the logger and the hooks of the instance as they are. The snapshot here is a
  total record: it stands for the dictionary as written back to the instance it was
  taken from. The dictionary of the code has no entry for an attribute that was never
  assigned on the instance, so it leaves such an attribute of another instance alone,
  and it shares the two lists with the instance; neither is modelled.
\<close>

definition pack :: "swing \<Rightarrow> swing_dict" where
  "pack s =
     \<lparr> trend = trend s, df = df s, high = high s, low = low s, coc = coc s, sph = sph s,
       spl = spl s, high_dt = high_dt s, low_dt = low_dt s, coc_dt = coc_dt s,
       sph_dt = sph_dt s, spl_dt = spl_dt s, retrace_threshold = retrace_threshold s,
       sideways_threshold = sideways_threshold s, symbol = symbol s, plot = plot s,
       plot_lines = plot_lines s, plot_colors = plot_colors s, bars_since = bars_since s \<rparr>"

definition unpack :: "swing_dict \<Rightarrow> swing \<Rightarrow> swing" where
  "unpack data s =
     s\<lparr> trend := trend data, df := df data, high := high data, low := low data,
        coc := coc data, sph := sph data, spl := spl data, high_dt := high_dt data,
        low_dt := low_dt data, coc_dt := coc_dt data, sph_dt := sph_dt data,
        spl_dt := spl_dt data, retrace_threshold := retrace_threshold data,
        sideways_threshold := sideways_threshold data, symbol := symbol data,
        plot := plot data, plot_lines := plot_lines data, plot_colors := plot_colors data,
        bars_since := bars_since data \<rparr>"

subsection \<open>The end of a recorded line\<close>

text \<open>
  \<^verbatim>\<open>df.index.get_loc\<close> belongs to the table library: \<^verbatim>\<open>KeyError\<close> when the label does
  not occur, its position when it occurs once, and when it occurs several times the slice
  over its occurrences if the index is sorted, a boolean mask over the index otherwise.
  \<^verbatim>\<open>__line_end_dt\<close> takes the stop of a slice and passes anything else to \<^verbatim>\<open>int\<close>,
  which raises \<^verbatim>\<open>TypeError\<close> on a mask.
\<close>

datatype loc = Pos nat | Slice nat nat | Mask "bool list"

definition get_loc :: "timestamp list \<Rightarrow> timestamp \<Rightarrow> error + loc" where
  "get_loc idx t =
     (case filter (\<lambda>i. idx ! i = t) [0 ..< length idx] of
        [] \<Rightarrow> Inl KeyError
      | [i] \<Rightarrow> Inr (Pos i)
      | i # js \<Rightarrow>
          if sorted idx then Inr (Slice i (Suc (last (i # js))))
          else Inr (Mask (map (\<lambda>x. x = t) idx)))"

definition line_end_dt :: "swing \<Rightarrow> timestamp option \<Rightarrow> error + timestamp" where
  "line_end_dt s dt =
     (case df s of
        None \<Rightarrow> Inl ValueError
      | Some d \<Rightarrow>
          (case dt of
             None \<Rightarrow> Inl KeyError
           | Some t \<Rightarrow>
               (case get_loc (map fst d) t of
                  Inl e \<Rightarrow> Inl e
                | Inr (Mask m) \<Rightarrow> Inl TypeError
                | Inr (Slice a b) \<Rightarrow>
                    Inr (map fst d ! nat (min (int b + 15) (int (length d) - 1)))
                | Inr (Pos i) \<Rightarrow>
                    Inr (map fst d ! nat (min (int i + 15) (int (length d) - 1))))))"

text \<open>
  The block guarded by \<^verbatim>\<open>if self.plot:\<close> in the breakout branches and in the two trend
  switches: look the end of the line up, then append the line and its colour. The result
  holds the exception, if any, and the instance.
\<close>

definition record_line :: "string \<Rightarrow> swing \<Rightarrow> error option \<times> swing" where
  "record_line colour s =
     (if plot s then
        (case line_end_dt s (coc_dt s) of
           Inl e \<Rightarrow> (Some e, s)
         | Inr t \<Rightarrow>
             (None, s\<lparr> plot_lines := plot_lines s @ [((coc_dt s, coc s), (t, coc s))],
                       plot_colors := plot_colors s @ [colour] \<rparr>))
      else (None, s))"

subsection \<open>The two trend switches\<close>

text \<open>\<^verbatim>\<open>__switch_downtrend(dt, low)\<close>: the assignments, then the recorded line.\<close>

definition switch_downtrend :: "timestamp \<Rightarrow> real \<Rightarrow> swing \<Rightarrow> error option \<times> swing" where
  "switch_downtrend dt lo s =
     (let s1 = s\<lparr> trend := Some DOWN, coc := high s, coc_dt := high_dt s \<rparr>;
          s2 = s1\<lparr> high := None, sph := None, sph_dt := None \<rparr>;
          s3 = s2\<lparr> low := Some lo, low_dt := Some dt, bars_since := 0 \<rparr>
      in record_line ''r'' s3)"

text \<open>\<^verbatim>\<open>__switch_uptrend(dt, high)\<close>.\<close>

definition switch_uptrend :: "timestamp \<Rightarrow> real \<Rightarrow> swing \<Rightarrow> error option \<times> swing" where
  "switch_uptrend dt hi s =
     (let s1 = s\<lparr> trend := Some UP, coc := low s, coc_dt := low_dt s \<rparr>;
          s2 = s1\<lparr> low := None, spl := None, spl_dt := None \<rparr>;
          s3 = s2\<lparr> high := Some hi, high_dt := Some dt, bars_since := 0 \<rparr>
      in record_line ''g'' s3)"

subsection \<open>\<^verbatim>\<open>identify\<close>\<close>

text \<open>
  \<^verbatim>\<open>identify(dt, high, low, close)\<close> is split along its three top-level branches; the
  arguments are named \<open>hi\<close>, \<open>lo\<close>, \<open>cl\<close> to keep them apart from the attributes.

  No trend yet (\<^verbatim>\<open>self.trend is None\<close>): the first candle seeds the extremes; later ones
  start a trend when the close leaves the range, and widen the range.

  Comparing a float with \<^verbatim>\<open>None\<close> raises \<^verbatim>\<open>TypeError\<close> in Python. The source guards
  every comparison, so the \<open>TypeError\<close> branches of \<open>identify_unset\<close>,
  \<open>identify_up\<close> and \<open>identify_down\<close>, which keep the definitions total, are never
  taken: with recording off no call raises at all (\<open>identify_returns_when_off\<close>).
\<close>

definition identify_unset :: "timestamp \<Rightarrow> real \<Rightarrow> real \<Rightarrow> real \<Rightarrow> swing \<Rightarrow> outcome" where
  "identify_unset dt hi lo cl s =
     (case (high s, low s) of
        (Some h, Some l) \<Rightarrow>
          (let s1 = (if cl > h then
                       s\<lparr> trend := Some UP, high := Some hi, high_dt := Some dt,
                          coc := low s, coc_dt := low_dt s \<rparr>
                     else if cl < l then
                       s\<lparr> trend := Some DOWN, low := Some lo, low_dt := Some dt,
                          coc := high s, coc_dt := high_dt s \<rparr>
                     else s)
           in (case (high s1, low s1) of
                 (Some h1, Some l1) \<Rightarrow>
                   (let s2 = (if hi > h1 then s1\<lparr> high := Some hi, high_dt := Some dt \<rparr> else s1);
                        s3 = (if lo < l1 then s2\<lparr> low := Some lo, low_dt := Some dt \<rparr> else s2)
                    in Return s3 [])
               | _ \<Rightarrow> Raise TypeError s1 []))
      | _ \<Rightarrow> Return (s\<lparr> high := Some hi, low := Some lo, high_dt := Some dt, low_dt := Some dt \<rparr>) [])"

text \<open>
  The two retrace filters, as written at lines 173 to 176 and 264 to 267:
  \<^verbatim>\<open>self.retrace_threshold and abs(retrace_pct) < self.retrace_threshold\<close> in the UP
  block, \<^verbatim>\<open>self.retrace_threshold and retrace_pct < self.retrace_threshold\<close> in the DOWN
  block.
\<close>

definition filter_up :: "swing \<Rightarrow> real \<Rightarrow> bool" where
  "filter_up s retrace_pct =
     (case retrace_threshold s of None \<Rightarrow> False | Some t \<Rightarrow> t \<noteq> 0 \<and> \<bar>retrace_pct\<bar> < t)"

definition filter_down :: "swing \<Rightarrow> real \<Rightarrow> bool" where
  "filter_down s retrace_pct =
     (case retrace_threshold s of None \<Rightarrow> False | Some t \<Rightarrow> t \<noteq> 0 \<and> retrace_pct < t)"

text \<open>
  Trend UP, lines 215 to 228, the bar that made no new high: a swing high forms from the
  tracked high if none is there (the low is cleared and the count restarts), then the
  low is widened, which counts the bar.
\<close>

definition pullback_up :: "timestamp \<Rightarrow> real \<Rightarrow> swing \<Rightarrow> swing" where
  "pullback_up dt lo s =
     (let s1 = (if sph s = None then
                  s\<lparr> sph := high s, sph_dt := high_dt s, low := None, low_dt := None,
                     bars_since := 0 \<rparr>
                else s)
      in if none_or_lt (low s1) lo then
           s1\<lparr> low := Some lo, low_dt := Some dt, bars_since := bars_since s1 + 1 \<rparr>
         else s1)"

text \<open>
  Trend UP, lines 231 to 242, under \<^verbatim>\<open>if self.coc and close < self.coc:\<close>: remember the
  level, switch the trend, call the hook with the new \<^verbatim>\<open>self.coc\<close> and the remembered
  level.
\<close>

definition reverse_down :: "timestamp \<Rightarrow> real \<Rightarrow> real \<Rightarrow> swing \<Rightarrow> outcome" where
  "reverse_down dt lo cl s =
     (let price_level = coc s
      in (case switch_downtrend dt lo s of
            (Some e, s') \<Rightarrow> Raise e s' []
          | (None, s') \<Rightarrow>
              Return s'
                (if on_reversal s' then
                   [OnReversal (symbol s') dt (trend s') cl (coc s') price_level]
                 else [])))"

text \<open>
  Trend UP, from \<^verbatim>\<open>if self.high and high > self.high:\<close> (line 208) to the return: a new
  high restarts the low and ends the bar; otherwise the pullback block runs and a close
  under a truthy \<^verbatim>\<open>coc\<close> reverses the trend.
\<close>

definition up_formation :: "timestamp \<Rightarrow> real \<Rightarrow> real \<Rightarrow> real \<Rightarrow> swing \<Rightarrow> outcome" where
  "up_formation dt hi lo cl s =
     (if and_gt (high s) hi then
        Return (s\<lparr> high := Some hi, high_dt := Some dt, low := Some lo, low_dt := Some dt \<rparr>) []
      else
        (let s2 = pullback_up dt lo s
         in if and_lt (coc s2) cl then reverse_down dt lo cl s2 else Return s2 []))"

text \<open>
  Trend UP, the block under \<^verbatim>\<open>if self.sph:\<close> (lines 155 to 206). \<open>track_up\<close> is its
  head (lines 156 to 164): count the bar and widen both extremes. \<open>breakout_up\<close> is the
  body of \<^verbatim>\<open>if close > self.sph:\<close> (lines 167 to 206), with the swing high \<open>p\<close> and
  the low \<open>l\<close> read: compute the retracement, clear the swing high, apply the retrace
  filter, move \<^verbatim>\<open>coc\<close> to the low, record the line and call the hook. Without a
  breakout the bar goes on to \<open>up_formation\<close>.
\<close>

definition track_up :: "timestamp \<Rightarrow> real \<Rightarrow> real \<Rightarrow> swing \<Rightarrow> swing" where
  "track_up dt hi lo s =
     (let s1 = s\<lparr> bars_since := bars_since s + 1 \<rparr>;
          s2 = (if and_gt (high s1) hi then s1\<lparr> high := Some hi, high_dt := Some dt \<rparr> else s1)
      in if none_or_lt (low s2) lo then s2\<lparr> low := Some lo, low_dt := Some dt \<rparr> else s2)"

definition breakout_up :: "timestamp \<Rightarrow> real \<Rightarrow> real \<Rightarrow> real \<Rightarrow> swing \<Rightarrow> outcome" where
  "breakout_up dt cl p l s =
     (case py_div (l - p) p of
        Inl e \<Rightarrow> Raise e s []
      | Inr retrace_pct \<Rightarrow>
          (let s1 = s\<lparr> sph := None, sph_dt := None, bars_since := 0 \<rparr>
           in if filter_up s1 retrace_pct then Return s1 []
              else
                (let s2 = s1\<lparr> coc := low s1, coc_dt := low_dt s1 \<rparr>
                 in (case record_line ''g'' s2 of
                       (Some e, s3) \<Rightarrow> Raise e s3 []
                     | (None, s3) \<Rightarrow>
                         Return s3
                           (if on_breakout s3 then
                              [OnBreakout (symbol s3) dt (trend s3) cl (Some p) (coc s3)]
                            else [])))))"

definition identify_up :: "timestamp \<Rightarrow> real \<Rightarrow> real \<Rightarrow> real \<Rightarrow> swing \<Rightarrow> outcome" where
  "identify_up dt hi lo cl s =
     (if truthy (sph s) then
        (let s1 = track_up dt hi lo s
         in (case (sph s1, low s1) of
               (Some p, Some l) \<Rightarrow>
                 if cl > p then breakout_up dt cl p l s1 else up_formation dt hi lo cl s1
             | _ \<Rightarrow> Raise TypeError s1 []))
      else up_formation dt hi lo cl s)"

text \<open>Trend DOWN, lines 303 to 316: the mirror of \<open>pullback_up\<close>.\<close>

definition pullback_down :: "timestamp \<Rightarrow> real \<Rightarrow> swing \<Rightarrow> swing" where
  "pullback_down dt hi s =
     (let s1 = (if spl s = None then
                  s\<lparr> spl := low s, spl_dt := low_dt s, high := None, high_dt := None,
                     bars_since := 0 \<rparr>
                else s)
      in if none_or_gt (high s1) hi then
           s1\<lparr> high := Some hi, high_dt := Some dt, bars_since := bars_since s1 + 1 \<rparr>
         else s1)"

text \<open>Trend DOWN, lines 319 to 330, under \<^verbatim>\<open>if self.coc and close > self.coc:\<close>.\<close>

definition reverse_up :: "timestamp \<Rightarrow> real \<Rightarrow> real \<Rightarrow> swing \<Rightarrow> outcome" where
  "reverse_up dt hi cl s =
     (let price_level = coc s
      in (case switch_uptrend dt hi s of
            (Some e, s') \<Rightarrow> Raise e s' []
          | (None, s') \<Rightarrow>
              Return s'
                (if on_reversal s' then
                   [OnReversal (symbol s') dt (trend s') cl (coc s') price_level]
                 else [])))"

text \<open>Trend DOWN, from \<^verbatim>\<open>if self.low and low < self.low:\<close> (line 297) to the end.\<close>

definition down_formation :: "timestamp \<Rightarrow> real \<Rightarrow> real \<Rightarrow> real \<Rightarrow> swing \<Rightarrow> outcome" where
  "down_formation dt hi lo cl s =
     (if and_lt (low s) lo then
        Return (s\<lparr> low := Some lo, high := Some hi, low_dt := Some dt, high_dt := Some dt \<rparr>) []
      else
        (let s2 = pullback_down dt hi s
         in if and_gt (coc s2) cl then reverse_up dt hi cl s2 else Return s2 []))"

text \<open>
  Trend DOWN, the block under \<^verbatim>\<open>if self.spl:\<close> (lines 246 to 295), with its head
  (lines 247 to 255) as \<open>track_down\<close> and the body of \<^verbatim>\<open>if close < self.spl:\<close>
  (lines 258 to 295) as \<open>breakout_down\<close>. The retrace filter here compares
  \<^verbatim>\<open>retrace_pct\<close> itself with the threshold, where the UP block compares
  \<^verbatim>\<open>abs(retrace_pct)\<close>.
\<close>

definition track_down :: "timestamp \<Rightarrow> real \<Rightarrow> real \<Rightarrow> swing \<Rightarrow> swing" where
  "track_down dt hi lo s =
     (let s1 = s\<lparr> bars_since := bars_since s + 1 \<rparr>;
          s2 = (if and_lt (low s1) lo then s1\<lparr> low := Some lo, low_dt := Some dt \<rparr> else s1)
      in if none_or_gt (high s2) hi then s2\<lparr> high := Some hi, high_dt := Some dt \<rparr> else s2)"

definition breakout_down :: "timestamp \<Rightarrow> real \<Rightarrow> real \<Rightarrow> real \<Rightarrow> swing \<Rightarrow> outcome" where
  "breakout_down dt cl p h s =
     (case py_div (h - p) p of
        Inl e \<Rightarrow> Raise e s []
      | Inr retrace_pct \<Rightarrow>
          (let s1 = s\<lparr> spl := None, spl_dt := None, bars_since := 0 \<rparr>
           in if filter_down s1 retrace_pct then Return s1 []
              else
                (let s2 = s1\<lparr> coc := high s1, coc_dt := high_dt s1 \<rparr>
                 in (case record_line ''r'' s2 of
                       (Some e, s3) \<Rightarrow> Raise e s3 []
                     | (None, s3) \<Rightarrow>
                         Return s3
                           (if on_breakout s3 then
                              [OnBreakout (symbol s3) dt (trend s3) cl (Some p) (coc s3)]
                            else [])))))"

definition identify_down :: "timestamp \<Rightarrow> real \<Rightarrow> real \<Rightarrow> real \<Rightarrow> swing \<Rightarrow> outcome" where
  "identify_down dt hi lo cl s =
     (if truthy (spl s) then
        (let s1 = track_down dt hi lo s
         in (case (spl s1, high s1) of
               (Some p, Some h) \<Rightarrow>
                 if cl < p then breakout_down dt cl p h s1 else down_formation dt hi lo cl s1
             | _ \<Rightarrow> Raise TypeError s1 []))
      else down_formation dt hi lo cl s)"

definition identify :: "timestamp \<Rightarrow> real \<Rightarrow> real \<Rightarrow> real \<Rightarrow> swing \<Rightarrow> outcome" where
  "identify dt hi lo cl s =
     (case trend s of
        None \<Rightarrow> identify_unset dt hi lo cl s
      | Some UP \<Rightarrow> identify_up dt hi lo cl s
      | Some DOWN \<Rightarrow> identify_down dt hi lo cl s)"

subsection \<open>Feeding bars, and \<^verbatim>\<open>run\<close>\<close>

type_synonym bar = "timestamp \<times> real \<times> real \<times> real"

text \<open>
  A sequence of \<^verbatim>\<open>identify\<close> calls, as the loop of \<^verbatim>\<open>run\<close> makes them: the first
  exception ends it, and the hook calls made so far are kept.
\<close>

fun feed :: "bar list \<Rightarrow> swing \<Rightarrow> outcome" where
  "feed [] s = Return s []"
| "feed ((dt, hi, lo, cl) # bs) s =
     (case identify dt hi lo cl s of
        Raise e s' ev \<Rightarrow> Raise e s' ev
      | Return s' ev \<Rightarrow>
          (case feed bs s' of
             Raise e s'' ev' \<Rightarrow> Raise e s'' (ev @ ev')
           | Return s'' ev' \<Rightarrow> Return s'' (ev @ ev')))"

text \<open>
  \<^verbatim>\<open>run(sym, df, plot_lines)\<close>. The \<^verbatim>\<open>add_series\<close> option only writes a column into the
  caller's table and is left out.
\<close>

definition run :: "string \<Rightarrow> row list \<Rightarrow> bool \<Rightarrow> swing \<Rightarrow> outcome" where
  "run sy d plot_lines_on s =
     (let s1 = s\<lparr> symbol := Some sy \<rparr>;
          s2 = (if plot_lines_on then
                  s1\<lparr> plot := True, plot_colors := [], plot_lines := [], df := Some d \<rparr>
                else s1)
      in feed (map (\<lambda>(dt, opn, hi, lo, cl). (dt, hi, lo, cl)) d) s2)"

subsection \<open>Observations used in the statements\<close>

text \<open>The exception a call raised, if any.\<close>

definition raised :: "outcome \<Rightarrow> error option" where
  "raised r = (case r of Return _ _ \<Rightarrow> None | Raise e _ _ \<Rightarrow> Some e)"

definition is_breakout :: "event \<Rightarrow> bool" where
  "is_breakout ev = (case ev of OnBreakout _ _ _ _ _ _ \<Rightarrow> True | OnReversal _ _ _ _ _ _ \<Rightarrow> False)"

definition is_reversal :: "event \<Rightarrow> bool" where
  "is_reversal ev = (case ev of OnBreakout _ _ _ _ _ _ \<Rightarrow> False | OnReversal _ _ _ _ _ _ \<Rightarrow> True)"

text \<open>
  The states an instance can take: as constructed, then after any \<^verbatim>\<open>identify\<close> call
  (returned or raised), any \<^verbatim>\<open>reset\<close>, and any assignment of the two hooks.
\<close>

inductive reachable :: "swing \<Rightarrow> bool" where
  reach_init: "reachable (init pct sideways dbg)"
| reach_identify: "reachable s \<Longrightarrow> reachable (post (identify dt hi lo cl s))"
| reach_reset: "reachable s \<Longrightarrow> reachable (reset s)"
| reach_hooks: "reachable s \<Longrightarrow> reachable (s\<lparr> on_reversal := r, on_breakout := b \<rparr>)"

text \<open>
  The consistency of the pending swing points with the trend: a swing high only under
  UP, a swing low only under DOWN, and none of \<^verbatim>\<open>coc\<close>, \<^verbatim>\<open>sph\<close>, \<^verbatim>\<open>spl\<close> before
  a trend is set.
\<close>

definition pivots_consistent :: "swing \<Rightarrow> bool" where
  "pivots_consistent s =
     ((sph s \<noteq> None \<longrightarrow> trend s = Some UP) \<and>
      (spl s \<noteq> None \<longrightarrow> trend s = Some DOWN) \<and>
      (trend s = None \<longrightarrow> coc s = None \<and> sph s = None \<and> spl s = None))"

subsection \<open>Sample runs\<close>

text \<open>
  States reached from a constructed instance, used to instantiate the statements below.
  \<open>fresh\<close> is \<^verbatim>\<open>Swing()\<close> with both hooks assigned; the others feed it a few bars. The
  last one has gone through \<^verbatim>\<open>run(..., plot_lines=True)\<close> and \<^verbatim>\<open>reset()\<close> first, which
  leaves recording on and the table unbound.
\<close>

definition fresh :: swing where
  "fresh = (init (Some 5) 20 False)\<lparr> on_reversal := True, on_breakout := True \<rparr>"

definition up_started :: swing where
  "up_started = post (feed [(0, 10, 8, 9), (1, 12, 9, 11)] fresh)"

definition up_pending :: swing where
  "up_pending = post (feed [(0, 10, 8, 9), (1, 12, 9, 11), (2, 11, 9, 10)] fresh)"

definition down_started :: swing where
  "down_started = post (feed [(0, 10, 8, 9), (1, 9, 6, 7)] fresh)"

definition down_pending :: swing where
  "down_pending = post (feed [(0, 10, 8, 9), (1, 9, 6, 7), (2, 8, 13 / 2, 7)] fresh)"

definition down_negative :: swing where
  "down_negative =
     post (feed [(0, - 8, - 10, - 9), (1, - 9, - 12, - 11), (2, - 10, - 23 / 2, - 11)] fresh)"

definition unbound_pending :: swing where
  "unbound_pending =
     post (feed [(0, 10, 8, 9), (1, 12, 9, 11), (2, 11, 9, 10)]
             (reset (post (run ''ACME'' [] True fresh))))"




text \<open>A run of \<^verbatim>\<open>run\<close> with recording on, over a table of four rows.\<close>

definition recorded :: swing where
  "recorded =
     post (run ''ACME''
             [(0, 9, 10, 8, 9), (1, 9, 12, 9, 11), (2, 11, 11, 9, 10), (3, 10, 13, 10, 25 / 2)]
             True fresh)"

text \<open>Runs that bring a tracked level to exactly zero.\<close>

definition up_zero_pivot :: swing where
  "up_zero_pivot = post (feed [(0, - 5, - 8, - 6), (1, 0, - 6, - 1), (2, - 1, - 3, - 2)] fresh)"

definition up_zero_coc :: swing where
  "up_zero_coc = post (feed [(0, 5, 0, 3), (1, 8, 2, 6)] fresh)"

definition down_zero_pivot :: swing where
  "down_zero_pivot = post (feed [(0, 8, 5, 6), (1, 6, 0, 1), (2, 3, 1, 2)] fresh)"

definition down_zero_coc :: swing where
  "down_zero_coc = post (feed [(0, 0, - 5, - 3), (1, - 2, - 8, - 6)] fresh)"

section \<open>Supporting lemmas\<close>

lemmas test_defs = truthy_def and_gt_def and_lt_def none_or_lt_def none_or_gt_def

lemmas branch_defs =
  identify_def identify_unset_def identify_up_def identify_down_def up_formation_def
  down_formation_def track_up_def track_down_def pullback_up_def pullback_down_def
  reverse_down_def reverse_up_def breakout_up_def breakout_down_def
  switch_downtrend_def switch_uptrend_def record_line_def py_div_def filter_up_def
  filter_down_def

subsection \<open>Outcomes read through their three projections\<close>

lemma raised_simps [simp]:
  "raised (Return s ev) = None" "raised (Raise e s ev) = Some e"
  by (simp_all add: raised_def)

lemma outcome_of_pair:
  "post (case r of (None, s') \<Rightarrow> Return s' (f s') | (Some e, s') \<Rightarrow> Raise e s' []) = snd r"
  "raised (case r of (None, s') \<Rightarrow> Return s' (f s') | (Some e, s') \<Rightarrow> Raise e s' []) = fst r"
  "emitted (case r of (None, s') \<Rightarrow> Return s' (f s') | (Some e, s') \<Rightarrow> Raise e s' [])
     = (if fst r = None then f (snd r) else [])"
  by (cases r; cases "fst r"; simp)+

subsection \<open>Recording a line\<close>

lemma get_loc_err: "get_loc idx t = Inl e \<Longrightarrow> e = KeyError"
  by (simp add: get_loc_def split: list.splits if_splits)

lemma line_end_dt_err:
  "line_end_dt s t = Inl e \<Longrightarrow> e = ValueError \<or> e = KeyError \<or> e = TypeError"
  by (auto simp: line_end_dt_def split: option.splits sum.splits loc.splits dest: get_loc_err)

lemma fst_record_line:
  "fst (record_line c s) =
     (if plot s then (case line_end_dt s (coc_dt s) of Inl e \<Rightarrow> Some e | Inr t \<Rightarrow> None) else None)"
  by (simp add: record_line_def split: sum.splits)

lemma record_line_err:
  "fst (record_line c s) = Some e \<Longrightarrow> e = ValueError \<or> e = KeyError \<or> e = TypeError"
  by (auto simp: fst_record_line split: if_splits sum.splits dest: line_end_dt_err)

lemma record_line_frame [simp]:
  "trend (snd (record_line c s)) = trend s"
  "df (snd (record_line c s)) = df s"
  "high (snd (record_line c s)) = high s"
  "low (snd (record_line c s)) = low s"
  "coc (snd (record_line c s)) = coc s"
  "sph (snd (record_line c s)) = sph s"
  "spl (snd (record_line c s)) = spl s"
  "high_dt (snd (record_line c s)) = high_dt s"
  "low_dt (snd (record_line c s)) = low_dt s"
  "coc_dt (snd (record_line c s)) = coc_dt s"
  "sph_dt (snd (record_line c s)) = sph_dt s"
  "spl_dt (snd (record_line c s)) = spl_dt s"
  "retrace_threshold (snd (record_line c s)) = retrace_threshold s"
  "sideways_threshold (snd (record_line c s)) = sideways_threshold s"
  "symbol (snd (record_line c s)) = symbol s"
  "plot (snd (record_line c s)) = plot s"
  "bars_since (snd (record_line c s)) = bars_since s"
  "debug (snd (record_line c s)) = debug s"
  "on_reversal (snd (record_line c s)) = on_reversal s"
  "on_breakout (snd (record_line c s)) = on_breakout s"
  by (simp_all add: record_line_def split: sum.splits)

lemma record_line_off: "\<not> plot s \<Longrightarrow> record_line c s = (None, s)"
  by (simp add: record_line_def)

lemma record_line_unbound: "plot s \<Longrightarrow> df s = None \<Longrightarrow> record_line c s = (Some ValueError, s)"
  by (simp add: record_line_def line_end_dt_def)

subsection \<open>The reversal\<close>

lemma post_reverse_down:
  "post (reverse_down dt lo cl s) = snd (switch_downtrend dt lo s)"
  "raised (reverse_down dt lo cl s) = fst (switch_downtrend dt lo s)"
  "emitted (reverse_down dt lo cl s) =
     (if fst (switch_downtrend dt lo s) = None then
        (if on_reversal s then [OnReversal (symbol s) dt (Some DOWN) cl (high s) (coc s)] else [])
      else [])"
  by (simp_all add: reverse_down_def outcome_of_pair Let_def switch_downtrend_def)

lemma switch_downtrend_fields [simp]:
  "trend (snd (switch_downtrend dt lo s)) = Some DOWN"
  "coc (snd (switch_downtrend dt lo s)) = high s"
  "coc_dt (snd (switch_downtrend dt lo s)) = high_dt s"
  "high (snd (switch_downtrend dt lo s)) = None"
  "sph (snd (switch_downtrend dt lo s)) = None"
  "sph_dt (snd (switch_downtrend dt lo s)) = None"
  "low (snd (switch_downtrend dt lo s)) = Some lo"
  "low_dt (snd (switch_downtrend dt lo s)) = Some dt"
  "bars_since (snd (switch_downtrend dt lo s)) = 0"
  "spl (snd (switch_downtrend dt lo s)) = spl s"
  "spl_dt (snd (switch_downtrend dt lo s)) = spl_dt s"
  "high_dt (snd (switch_downtrend dt lo s)) = high_dt s"
  "df (snd (switch_downtrend dt lo s)) = df s"
  "plot (snd (switch_downtrend dt lo s)) = plot s"
  "symbol (snd (switch_downtrend dt lo s)) = symbol s"
  "retrace_threshold (snd (switch_downtrend dt lo s)) = retrace_threshold s"
  "sideways_threshold (snd (switch_downtrend dt lo s)) = sideways_threshold s"
  "debug (snd (switch_downtrend dt lo s)) = debug s"
  "on_reversal (snd (switch_downtrend dt lo s)) = on_reversal s"
  "on_breakout (snd (switch_downtrend dt lo s)) = on_breakout s"
  by (simp_all add: switch_downtrend_def)

text \<open>The same for the switch to UP.\<close>

lemma post_reverse_up:
  "post (reverse_up dt hi cl s) = snd (switch_uptrend dt hi s)"
  "raised (reverse_up dt hi cl s) = fst (switch_uptrend dt hi s)"
  "emitted (reverse_up dt hi cl s) =
     (if fst (switch_uptrend dt hi s) = None then
        (if on_reversal s then [OnReversal (symbol s) dt (Some UP) cl (low s) (coc s)] else [])
      else [])"
  by (simp_all add: reverse_up_def outcome_of_pair Let_def switch_uptrend_def)

lemma switch_uptrend_fields [simp]:
  "trend (snd (switch_uptrend dt hi s)) = Some UP"
  "coc (snd (switch_uptrend dt hi s)) = low s"
  "coc_dt (snd (switch_uptrend dt hi s)) = low_dt s"
  "low (snd (switch_uptrend dt hi s)) = None"
  "spl (snd (switch_uptrend dt hi s)) = None"
  "spl_dt (snd (switch_uptrend dt hi s)) = None"
  "high (snd (switch_uptrend dt hi s)) = Some hi"
  "high_dt (snd (switch_uptrend dt hi s)) = Some dt"
  "bars_since (snd (switch_uptrend dt hi s)) = 0"
  "sph (snd (switch_uptrend dt hi s)) = sph s"
  "sph_dt (snd (switch_uptrend dt hi s)) = sph_dt s"
  "low_dt (snd (switch_uptrend dt hi s)) = low_dt s"
  "df (snd (switch_uptrend dt hi s)) = df s"
  "plot (snd (switch_uptrend dt hi s)) = plot s"
  "symbol (snd (switch_uptrend dt hi s)) = symbol s"
  "retrace_threshold (snd (switch_uptrend dt hi s)) = retrace_threshold s"
  "sideways_threshold (snd (switch_uptrend dt hi s)) = sideways_threshold s"
  "debug (snd (switch_uptrend dt hi s)) = debug s"
  "on_reversal (snd (switch_uptrend dt hi s)) = on_reversal s"
  "on_breakout (snd (switch_uptrend dt hi s)) = on_breakout s"
  by (simp_all add: switch_uptrend_def)

subsection \<open>Trend UP: tracking, pullback, formation\<close>

lemma track_up_fields [simp]:
  "bars_since (track_up dt hi lo s) = bars_since s + 1"
  "high (track_up dt hi lo s) = (if and_gt (high s) hi then Some hi else high s)"
  "high_dt (track_up dt hi lo s) = (if and_gt (high s) hi then Some dt else high_dt s)"
  "low (track_up dt hi lo s) = (if none_or_lt (low s) lo then Some lo else low s)"
  "low_dt (track_up dt hi lo s) = (if none_or_lt (low s) lo then Some dt else low_dt s)"
  "trend (track_up dt hi lo s) = trend s"
  "coc (track_up dt hi lo s) = coc s"
  "coc_dt (track_up dt hi lo s) = coc_dt s"
  "sph (track_up dt hi lo s) = sph s"
  "sph_dt (track_up dt hi lo s) = sph_dt s"
  "spl (track_up dt hi lo s) = spl s"
  "spl_dt (track_up dt hi lo s) = spl_dt s"
  "df (track_up dt hi lo s) = df s"
  "plot (track_up dt hi lo s) = plot s"
  "symbol (track_up dt hi lo s) = symbol s"
  "retrace_threshold (track_up dt hi lo s) = retrace_threshold s"
  "sideways_threshold (track_up dt hi lo s) = sideways_threshold s"
  "debug (track_up dt hi lo s) = debug s"
  "on_reversal (track_up dt hi lo s) = on_reversal s"
  "on_breakout (track_up dt hi lo s) = on_breakout s"
  by (simp_all add: track_up_def Let_def)

lemma track_up_settled:
  "\<not> and_gt (high (track_up dt hi lo s)) hi"
  "\<not> none_or_lt (low (track_up dt hi lo s)) lo"
  "low (track_up dt hi lo s) \<noteq> None"
  by (auto simp: test_defs split: option.splits)

lemma pullback_up_fields [simp]:
  "sph (pullback_up dt lo s) = (if sph s = None then high s else sph s)"
  "sph_dt (pullback_up dt lo s) = (if sph s = None then high_dt s else sph_dt s)"
  "low (pullback_up dt lo s) =
     (if sph s = None \<or> none_or_lt (low s) lo then Some lo else low s)"
  "low_dt (pullback_up dt lo s) =
     (if sph s = None \<or> none_or_lt (low s) lo then Some dt else low_dt s)"
  "bars_since (pullback_up dt lo s) =
     (if sph s = None then 1 else if none_or_lt (low s) lo then bars_since s + 1 else bars_since s)"
  "high (pullback_up dt lo s) = high s"
  "high_dt (pullback_up dt lo s) = high_dt s"
  "trend (pullback_up dt lo s) = trend s"
  "coc (pullback_up dt lo s) = coc s"
  "coc_dt (pullback_up dt lo s) = coc_dt s"
  "spl (pullback_up dt lo s) = spl s"
  "spl_dt (pullback_up dt lo s) = spl_dt s"
  "df (pullback_up dt lo s) = df s"
  "plot (pullback_up dt lo s) = plot s"
  "symbol (pullback_up dt lo s) = symbol s"
  "retrace_threshold (pullback_up dt lo s) = retrace_threshold s"
  "sideways_threshold (pullback_up dt lo s) = sideways_threshold s"
  "debug (pullback_up dt lo s) = debug s"
  "on_reversal (pullback_up dt lo s) = on_reversal s"
  "on_breakout (pullback_up dt lo s) = on_breakout s"
  by (simp_all add: pullback_up_def Let_def none_or_lt_def)

lemma pullback_up_pending:
  assumes "sph s \<noteq> None"
  shows "pullback_up dt lo (track_up dt hi lo s) = track_up dt hi lo s"
proof -
  have a: "sph (track_up dt hi lo s) \<noteq> None" using assms by simp
  have b: "\<not> none_or_lt (low (track_up dt hi lo s)) lo" by (rule track_up_settled)
  show ?thesis unfolding pullback_up_def Let_def using a b by (auto simp del: track_up_fields)
qed

text \<open>The three ways out of \<open>up_formation\<close>.\<close>

lemma up_formation_new_high:
  "and_gt (high s) hi \<Longrightarrow>
   up_formation dt hi lo cl s =
     Return (s\<lparr> high := Some hi, high_dt := Some dt, low := Some lo, low_dt := Some dt \<rparr>) []"
  by (simp add: up_formation_def)

lemma up_formation_reversal:
  "\<not> and_gt (high s) hi \<Longrightarrow> and_lt (coc s) cl \<Longrightarrow>
   up_formation dt hi lo cl s = reverse_down dt lo cl (pullback_up dt lo s)"
  by (simp add: up_formation_def Let_def)

lemma up_formation_quiet:
  "\<not> and_gt (high s) hi \<Longrightarrow> \<not> and_lt (coc s) cl \<Longrightarrow>
   up_formation dt hi lo cl s = Return (pullback_up dt lo s) []"
  by (simp add: up_formation_def Let_def)

text \<open>The three ways through \<open>identify_up\<close>.\<close>

lemma identify_up_no_pivot:
  "\<not> truthy (sph s) \<Longrightarrow> identify_up dt hi lo cl s = up_formation dt hi lo cl s"
  by (simp add: identify_up_def)

lemma identify_up_breakout:
  assumes "sph s = Some p" "p \<noteq> 0" "cl > p"
  shows "\<exists>l. low (track_up dt hi lo s) = Some l \<and>
             identify_up dt hi lo cl s = breakout_up dt cl p l (track_up dt hi lo s)"
proof -
  obtain l where l: "low (track_up dt hi lo s) = Some l"
    using track_up_settled(3)[of dt hi lo s] by blast
  have "truthy (sph s)" using assms by (simp add: truthy_def)
  then have "identify_up dt hi lo cl s = breakout_up dt cl p l (track_up dt hi lo s)"
    unfolding identify_up_def Let_def using assms l
    by (simp del: track_up_fields(4) add: track_up_fields(9))
  with l show ?thesis by blast
qed

lemma identify_up_fall_through:
  assumes "sph s = Some p" "p \<noteq> 0" "\<not> cl > p"
  shows "identify_up dt hi lo cl s = up_formation dt hi lo cl (track_up dt hi lo s)"
proof -
  obtain l where l: "low (track_up dt hi lo s) = Some l"
    using track_up_settled(3)[of dt hi lo s] by blast
  have "truthy (sph s)" using assms by (simp add: truthy_def)
  then show ?thesis
    unfolding identify_up_def Let_def using assms l
    by (simp del: track_up_fields(4) add: track_up_fields(9))
qed

subsection \<open>Trend UP: the breakout\<close>

text \<open>The filter of the UP block, on the swing high \<open>p\<close> and the tracked low \<open>l\<close>.\<close>

lemma filter_frame [simp]:
  "filter_up (s\<lparr> sph := a, sph_dt := b, bars_since := n \<rparr>) r = filter_up s r"
  "filter_down (s\<lparr> spl := a, spl_dt := b, bars_since := n \<rparr>) r = filter_down s r"
  by (simp_all add: filter_up_def filter_down_def)

lemma breakout_up_suppressed:
  assumes "p \<noteq> 0" "filter_up s ((l - p) / p)"
  shows "breakout_up dt cl p l s = Return (s\<lparr> sph := None, sph_dt := None, bars_since := 0 \<rparr>) []"
  using assms by (simp add: breakout_up_def py_div_def)

lemma breakout_up_passed:
  assumes "p \<noteq> 0" "\<not> filter_up s ((l - p) / p)"
  shows "post (breakout_up dt cl p l s) =
           snd (record_line ''g'' (s\<lparr> sph := None, sph_dt := None, bars_since := 0,
                                      coc := low s, coc_dt := low_dt s \<rparr>))"
    and "raised (breakout_up dt cl p l s) =
           fst (record_line ''g'' (s\<lparr> sph := None, sph_dt := None, bars_since := 0,
                                      coc := low s, coc_dt := low_dt s \<rparr>))"
    and "raised (breakout_up dt cl p l s) = None \<Longrightarrow>
         emitted (breakout_up dt cl p l s) =
           (if on_breakout s then [OnBreakout (symbol s) dt (trend s) cl (Some p) (low s)] else [])"
    and "raised (breakout_up dt cl p l s) \<noteq> None \<Longrightarrow> emitted (breakout_up dt cl p l s) = []"
  using assms
  by (simp_all add: breakout_up_def py_div_def outcome_of_pair Let_def)

subsection \<open>Trend DOWN: tracking, pullback, formation\<close>

lemma track_down_fields [simp]:
  "bars_since (track_down dt hi lo s) = bars_since s + 1"
  "low (track_down dt hi lo s) = (if and_lt (low s) lo then Some lo else low s)"
  "low_dt (track_down dt hi lo s) = (if and_lt (low s) lo then Some dt else low_dt s)"
  "high (track_down dt hi lo s) = (if none_or_gt (high s) hi then Some hi else high s)"
  "high_dt (track_down dt hi lo s) = (if none_or_gt (high s) hi then Some dt else high_dt s)"
  "trend (track_down dt hi lo s) = trend s"
  "coc (track_down dt hi lo s) = coc s"
  "coc_dt (track_down dt hi lo s) = coc_dt s"
  "spl (track_down dt hi lo s) = spl s"
  "spl_dt (track_down dt hi lo s) = spl_dt s"
  "sph (track_down dt hi lo s) = sph s"
  "sph_dt (track_down dt hi lo s) = sph_dt s"
  "df (track_down dt hi lo s) = df s"
  "plot (track_down dt hi lo s) = plot s"
  "symbol (track_down dt hi lo s) = symbol s"
  "retrace_threshold (track_down dt hi lo s) = retrace_threshold s"
  "sideways_threshold (track_down dt hi lo s) = sideways_threshold s"
  "debug (track_down dt hi lo s) = debug s"
  "on_reversal (track_down dt hi lo s) = on_reversal s"
  "on_breakout (track_down dt hi lo s) = on_breakout s"
  by (simp_all add: track_down_def Let_def)

lemma track_down_settled:
  "\<not> and_lt (low (track_down dt hi lo s)) lo"
  "\<not> none_or_gt (high (track_down dt hi lo s)) hi"
  "high (track_down dt hi lo s) \<noteq> None"
  by (auto simp: test_defs split: option.splits)

lemma pullback_down_fields [simp]:
  "spl (pullback_down dt hi s) = (if spl s = None then low s else spl s)"
  "spl_dt (pullback_down dt hi s) = (if spl s = None then low_dt s else spl_dt s)"
  "high (pullback_down dt hi s) =
     (if spl s = None \<or> none_or_gt (high s) hi then Some hi else high s)"
  "high_dt (pullback_down dt hi s) =
     (if spl s = None \<or> none_or_gt (high s) hi then Some dt else high_dt s)"
  "bars_since (pullback_down dt hi s) =
     (if spl s = None then 1 else if none_or_gt (high s) hi then bars_since s + 1 else bars_since s)"
  "low (pullback_down dt hi s) = low s"
  "low_dt (pullback_down dt hi s) = low_dt s"
  "trend (pullback_down dt hi s) = trend s"
  "coc (pullback_down dt hi s) = coc s"
  "coc_dt (pullback_down dt hi s) = coc_dt s"
  "sph (pullback_down dt hi s) = sph s"
  "sph_dt (pullback_down dt hi s) = sph_dt s"
  "df (pullback_down dt hi s) = df s"
  "plot (pullback_down dt hi s) = plot s"
  "symbol (pullback_down dt hi s) = symbol s"
  "retrace_threshold (pullback_down dt hi s) = retrace_threshold s"
  "sideways_threshold (pullback_down dt hi s) = sideways_threshold s"
  "debug (pullback_down dt hi s) = debug s"
  "on_reversal (pullback_down dt hi s) = on_reversal s"
  "on_breakout (pullback_down dt hi s) = on_breakout s"
  by (simp_all add: pullback_down_def Let_def none_or_gt_def)

lemma pullback_down_pending:
  assumes "spl s \<noteq> None"
  shows "pullback_down dt hi (track_down dt hi lo s) = track_down dt hi lo s"
proof -
  have a: "spl (track_down dt hi lo s) \<noteq> None" using assms by simp
  have b: "\<not> none_or_gt (high (track_down dt hi lo s)) hi" by (rule track_down_settled)
  show ?thesis unfolding pullback_down_def Let_def using a b by (auto simp del: track_down_fields)
qed

text \<open>The three ways out of \<open>down_formation\<close>.\<close>

lemma down_formation_new_low:
  "and_lt (low s) lo \<Longrightarrow>
   down_formation dt hi lo cl s =
     Return (s\<lparr> low := Some lo, low_dt := Some dt, high := Some hi, high_dt := Some dt \<rparr>) []"
  by (simp add: down_formation_def)

lemma down_formation_reversal:
  "\<not> and_lt (low s) lo \<Longrightarrow> and_gt (coc s) cl \<Longrightarrow>
   down_formation dt hi lo cl s = reverse_up dt hi cl (pullback_down dt hi s)"
  by (simp add: down_formation_def Let_def)

lemma down_formation_quiet:
  "\<not> and_lt (low s) lo \<Longrightarrow> \<not> and_gt (coc s) cl \<Longrightarrow>
   down_formation dt hi lo cl s = Return (pullback_down dt hi s) []"
  by (simp add: down_formation_def Let_def)

text \<open>The three ways through \<open>identify_down\<close>.\<close>

lemma identify_down_no_pivot:
  "\<not> truthy (spl s) \<Longrightarrow> identify_down dt hi lo cl s = down_formation dt hi lo cl s"
  by (simp add: identify_down_def)

lemma identify_down_breakout:
  assumes "spl s = Some p" "p \<noteq> 0" "cl < p"
  shows "\<exists>h. high (track_down dt hi lo s) = Some h \<and>
             identify_down dt hi lo cl s = breakout_down dt cl p h (track_down dt hi lo s)"
proof -
  obtain h where h: "high (track_down dt hi lo s) = Some h"
    using track_down_settled(3)[of dt hi lo s] by blast
  have "truthy (spl s)" using assms by (simp add: truthy_def)
  then have "identify_down dt hi lo cl s = breakout_down dt cl p h (track_down dt hi lo s)"
    unfolding identify_down_def Let_def using assms h
    by (simp del: track_down_fields(4) add: track_down_fields(9))
  with h show ?thesis by blast
qed

lemma identify_down_fall_through:
  assumes "spl s = Some p" "p \<noteq> 0" "\<not> cl < p"
  shows "identify_down dt hi lo cl s = down_formation dt hi lo cl (track_down dt hi lo s)"
proof -
  obtain h where h: "high (track_down dt hi lo s) = Some h"
    using track_down_settled(3)[of dt hi lo s] by blast
  have "truthy (spl s)" using assms by (simp add: truthy_def)
  then show ?thesis
    unfolding identify_down_def Let_def using assms h
    by (simp del: track_down_fields(4) add: track_down_fields(9))
qed

subsection \<open>Trend DOWN: the breakout\<close>

text \<open>The filter of the DOWN block, on the swing low \<open>p\<close> and the tracked high \<open>h\<close>.\<close>

lemma breakout_down_suppressed:
  assumes "p \<noteq> 0" "filter_down s ((h - p) / p)"
  shows "breakout_down dt cl p h s = Return (s\<lparr> spl := None, spl_dt := None, bars_since := 0 \<rparr>) []"
  using assms by (simp add: breakout_down_def py_div_def)

lemma breakout_down_passed:
  assumes "p \<noteq> 0" "\<not> filter_down s ((h - p) / p)"
  shows "post (breakout_down dt cl p h s) =
           snd (record_line ''r'' (s\<lparr> spl := None, spl_dt := None, bars_since := 0,
                                      coc := high s, coc_dt := high_dt s \<rparr>))"
    and "raised (breakout_down dt cl p h s) =
           fst (record_line ''r'' (s\<lparr> spl := None, spl_dt := None, bars_since := 0,
                                      coc := high s, coc_dt := high_dt s \<rparr>))"
    and "raised (breakout_down dt cl p h s) = None \<Longrightarrow>
         emitted (breakout_down dt cl p h s) =
           (if on_breakout s then [OnBreakout (symbol s) dt (trend s) cl (Some p) (high s)] else [])"
    and "raised (breakout_down dt cl p h s) \<noteq> None \<Longrightarrow> emitted (breakout_down dt cl p h s) = []"
  using assms
  by (simp_all add: breakout_down_def py_div_def outcome_of_pair Let_def)

subsection \<open>The sample runs, evaluated\<close>

lemmas eval_defs = branch_defs test_defs init_def reset_def run_def Let_def

lemma fresh_eq:
  "fresh = \<lparr> trend = None, df = None, high = None, low = None, coc = None, sph = None,
     spl = None, high_dt = None, low_dt = None, coc_dt = None, sph_dt = None,
     spl_dt = None, retrace_threshold = Some (1 / 20), sideways_threshold = 20,
     symbol = None, plot = False, plot_lines = [], plot_colors = [], bars_since = 0,
     debug = False, on_reversal = True, on_breakout = True \<rparr>"
  by (simp add: fresh_def init_def)

lemma up_started_eq:
  "up_started = \<lparr> trend = Some UP, df = None, high = Some 12, low = Some 8, coc = Some 8,
     sph = None, spl = None, high_dt = Some 1, low_dt = Some 0, coc_dt = Some 0,
     sph_dt = None, spl_dt = None, retrace_threshold = Some (1 / 20),
     sideways_threshold = 20, symbol = None, plot = False, plot_lines = [],
     plot_colors = [], bars_since = 0, debug = False, on_reversal = True,
     on_breakout = True \<rparr>"
  by (simp add: up_started_def fresh_eq eval_defs)

lemma up_pending_eq:
  "up_pending = \<lparr> trend = Some UP, df = None, high = Some 12, low = Some 9, coc = Some 8,
     sph = Some 12, spl = None, high_dt = Some 1, low_dt = Some 2, coc_dt = Some 0,
     sph_dt = Some 1, spl_dt = None, retrace_threshold = Some (1 / 20),
     sideways_threshold = 20, symbol = None, plot = False, plot_lines = [],
     plot_colors = [], bars_since = 1, debug = False, on_reversal = True,
     on_breakout = True \<rparr>"
  by (simp add: up_pending_def fresh_eq eval_defs)

lemma down_pending_eq:
  "down_pending = \<lparr> trend = Some DOWN, df = None, high = Some 8, low = Some 6,
     coc = Some 10, sph = None, spl = Some 6, high_dt = Some 2, low_dt = Some 1,
     coc_dt = Some 0, sph_dt = None, spl_dt = Some 1, retrace_threshold = Some (1 / 20),
     sideways_threshold = 20, symbol = None, plot = False, plot_lines = [],
     plot_colors = [], bars_since = 1, debug = False, on_reversal = True,
     on_breakout = True \<rparr>"
  by (simp add: down_pending_def fresh_eq eval_defs)

lemma down_negative_eq:
  "down_negative = \<lparr> trend = Some DOWN, df = None, high = Some (- 10), low = Some (- 12),
     coc = Some (- 8), sph = None, spl = Some (- 12), high_dt = Some 2, low_dt = Some 1,
     coc_dt = Some 0, sph_dt = None, spl_dt = Some 1, retrace_threshold = Some (1 / 20),
     sideways_threshold = 20, symbol = None, plot = False, plot_lines = [],
     plot_colors = [], bars_since = 1, debug = False, on_reversal = True,
     on_breakout = True \<rparr>"
  by (simp add: down_negative_def fresh_eq eval_defs)

lemma unbound_pending_eq:
  "unbound_pending = \<lparr> trend = Some UP, df = None, high = Some 12, low = Some 9,
     coc = Some 8, sph = Some 12, spl = None, high_dt = Some 1, low_dt = Some 2,
     coc_dt = Some 0, sph_dt = Some 1, spl_dt = None, retrace_threshold = Some (1 / 20),
     sideways_threshold = 20, symbol = Some ''ACME'', plot = True, plot_lines = [],
     plot_colors = [], bars_since = 1, debug = False, on_reversal = True,
     on_breakout = True \<rparr>"
  by (simp add: unbound_pending_def fresh_eq eval_defs)

subsection \<open>Reversal\<close>

lemma identify_up_reverses:
  assumes up: "trend s = Some UP"
    and coc: "and_lt (coc s) cl"
    and nobreak: "\<not> and_gt (sph s) cl"
    and nonew: "truthy (sph s) \<or> \<not> and_gt (high s) hi"
  shows "identify dt hi lo cl s =
           reverse_down dt lo cl
             (pullback_up dt lo (if truthy (sph s) then track_up dt hi lo s else s))"
proof (cases "truthy (sph s)")
  case True
  then obtain p where p: "sph s = Some p" "p \<noteq> 0"
    by (auto simp: truthy_def split: option.splits)
  with nobreak have "\<not> cl > p" by (simp add: and_gt_def)
  with p have "identify_up dt hi lo cl s = up_formation dt hi lo cl (track_up dt hi lo s)"
    by (rule identify_up_fall_through)
  moreover have "up_formation dt hi lo cl (track_up dt hi lo s) =
      reverse_down dt lo cl (pullback_up dt lo (track_up dt hi lo s))"
    using coc by (intro up_formation_reversal track_up_settled) simp
  ultimately show ?thesis using up True by (simp add: identify_def)
next
  case False
  then have "identify_up dt hi lo cl s = up_formation dt hi lo cl s"
    by (rule identify_up_no_pivot)
  moreover have "up_formation dt hi lo cl s = reverse_down dt lo cl (pullback_up dt lo s)"
    using False nonew coc by (intro up_formation_reversal) simp_all
  ultimately show ?thesis using up False by (simp add: identify_def)
qed

lemma identify_down_reverses:
  assumes down: "trend s = Some DOWN"
    and coc: "and_gt (coc s) cl"
    and nobreak: "\<not> and_lt (spl s) cl"
    and nonew: "truthy (spl s) \<or> \<not> and_lt (low s) lo"
  shows "identify dt hi lo cl s =
           reverse_up dt hi cl
             (pullback_down dt hi (if truthy (spl s) then track_down dt hi lo s else s))"
proof (cases "truthy (spl s)")
  case True
  then obtain p where p: "spl s = Some p" "p \<noteq> 0"
    by (auto simp: truthy_def split: option.splits)
  with nobreak have "\<not> cl < p" by (simp add: and_lt_def)
  with p have "identify_down dt hi lo cl s = down_formation dt hi lo cl (track_down dt hi lo s)"
    by (rule identify_down_fall_through)
  moreover have "down_formation dt hi lo cl (track_down dt hi lo s) =
      reverse_up dt hi cl (pullback_down dt hi (track_down dt hi lo s))"
    using coc by (intro down_formation_reversal track_down_settled) simp
  ultimately show ?thesis using down True by (simp add: identify_def)
next
  case False
  then have "identify_down dt hi lo cl s = down_formation dt hi lo cl s"
    by (rule identify_down_no_pivot)
  moreover have "down_formation dt hi lo cl s = reverse_up dt hi cl (pullback_down dt hi s)"
    using False nonew coc by (intro down_formation_reversal) simp_all
  ultimately show ?thesis using down False by (simp add: identify_def)
qed

lemma switch_off:
  "\<not> plot s \<Longrightarrow> fst (switch_downtrend dt lo s) = None"
  "\<not> plot s \<Longrightarrow> fst (switch_uptrend dt hi s) = None"
  by (simp_all add: switch_downtrend_def switch_uptrend_def fst_record_line)

subsection \<open>Trend UP: every bar takes one of four ways\<close>

lemma breakout_up_fields:
  assumes "p \<noteq> 0"
  shows "trend (post (breakout_up dt cl p l s)) = trend s"
    and "sph (post (breakout_up dt cl p l s)) = None"
    and "sph_dt (post (breakout_up dt cl p l s)) = None"
    and "bars_since (post (breakout_up dt cl p l s)) = 0"
    and "spl (post (breakout_up dt cl p l s)) = spl s"
    and "high (post (breakout_up dt cl p l s)) = high s"
    and "low (post (breakout_up dt cl p l s)) = low s"
    and "coc (post (breakout_up dt cl p l s)) = (if filter_up s ((l - p) / p) then coc s else low s)"
    and "coc_dt (post (breakout_up dt cl p l s)) =
           (if filter_up s ((l - p) / p) then coc_dt s else low_dt s)"
  using assms by (simp_all add: breakout_up_def py_div_def outcome_of_pair Let_def)

lemma breakout_up_emitted:
  assumes "p \<noteq> 0"
  shows "emitted (breakout_up dt cl p l s) =
           (if \<not> filter_up s ((l - p) / p) \<and> raised (breakout_up dt cl p l s) = None \<and> on_breakout s
            then [OnBreakout (symbol s) dt (trend s) cl (Some p) (low s)] else [])"
  using assms by (simp add: breakout_up_def py_div_def outcome_of_pair Let_def)

lemma breakout_up_raised:
  assumes "p \<noteq> 0"
  shows "raised (breakout_up dt cl p l s) =
           (if filter_up s ((l - p) / p) then None
            else fst (record_line ''g'' (s\<lparr> sph := None, sph_dt := None, bars_since := 0,
                                           coc := low s, coc_dt := low_dt s \<rparr>)))"
  using assms by (simp add: breakout_up_def py_div_def outcome_of_pair Let_def)

lemma identify_up_cases [consumes 1, case_names breakout new_high reversal quiet]:
  assumes "trend s = Some UP"
  obtains
    p l where "sph s = Some p" "p \<noteq> 0" "cl > p" "low (track_up dt hi lo s) = Some l"
      "identify dt hi lo cl s = breakout_up dt cl p l (track_up dt hi lo s)"
  | "\<not> truthy (sph s)" "and_gt (high s) hi"
      "identify dt hi lo cl s =
         Return (s\<lparr> high := Some hi, high_dt := Some dt, low := Some lo, low_dt := Some dt \<rparr>) []"
  | "\<not> and_gt (sph s) cl" "truthy (sph s) \<or> \<not> and_gt (high s) hi" "and_lt (coc s) cl"
      "identify dt hi lo cl s =
         reverse_down dt lo cl
           (pullback_up dt lo (if truthy (sph s) then track_up dt hi lo s else s))"
  | "\<not> and_gt (sph s) cl" "truthy (sph s) \<or> \<not> and_gt (high s) hi" "\<not> and_lt (coc s) cl"
      "identify dt hi lo cl s =
         Return (pullback_up dt lo (if truthy (sph s) then track_up dt hi lo s else s)) []"
proof -
  have id: "identify dt hi lo cl s = identify_up dt hi lo cl s"
    using assms by (simp add: identify_def)
  show thesis
  proof (cases "truthy (sph s)")
    case True
    then obtain p where p: "sph s = Some p" "p \<noteq> 0"
      by (auto simp: truthy_def split: option.splits)
    show thesis
    proof (cases "cl > p")
      case True
      with p identify_up_breakout[OF p True, of dt hi lo] id show thesis
        by (auto intro: that(1))
    next
      case False
      with p have nb: "\<not> and_gt (sph s) cl" by (simp add: and_gt_def)
      have ft: "identify dt hi lo cl s = up_formation dt hi lo cl (track_up dt hi lo s)"
        using identify_up_fall_through[OF p False] id by simp
      show thesis
      proof (cases "and_lt (coc s) cl")
        case True
        then show thesis
          using nb \<open>truthy (sph s)\<close> ft
            up_formation_reversal[OF track_up_settled(1), of dt hi lo s cl]
          by (intro that(3)) simp_all
      next
        case False
        then show thesis
          using nb \<open>truthy (sph s)\<close> ft
            up_formation_quiet[OF track_up_settled(1), of dt hi lo s cl]
          by (intro that(4)) simp_all
      qed
    qed
  next
    case False
    then have nb: "\<not> and_gt (sph s) cl"
      by (auto simp: truthy_def and_gt_def split: option.splits)
    have ft: "identify dt hi lo cl s = up_formation dt hi lo cl s"
      using identify_up_no_pivot[OF False] id by simp
    show thesis
    proof (cases "and_gt (high s) hi")
      case True
      then show thesis using False ft up_formation_new_high[OF True]
        by (intro that(2)) simp_all
    next
      case nh: False
      show thesis
      proof (cases "and_lt (coc s) cl")
        case True
        then show thesis using nb nh False ft up_formation_reversal[OF nh True]
          by (intro that(3)) simp_all
      next
        case nr: False
        then show thesis using nb nh False ft up_formation_quiet[OF nh nr]
          by (intro that(4)) simp_all
      qed
    qed
  qed
qed

subsection \<open>Trend DOWN: every bar takes one of four ways\<close>

lemma breakout_down_fields:
  assumes "p \<noteq> 0"
  shows "trend (post (breakout_down dt cl p h s)) = trend s"
    and "spl (post (breakout_down dt cl p h s)) = None"
    and "spl_dt (post (breakout_down dt cl p h s)) = None"
    and "bars_since (post (breakout_down dt cl p h s)) = 0"
    and "sph (post (breakout_down dt cl p h s)) = sph s"
    and "low (post (breakout_down dt cl p h s)) = low s"
    and "high (post (breakout_down dt cl p h s)) = high s"
    and "coc (post (breakout_down dt cl p h s)) = (if filter_down s ((h - p) / p) then coc s else high s)"
    and "coc_dt (post (breakout_down dt cl p h s)) =
           (if filter_down s ((h - p) / p) then coc_dt s else high_dt s)"
  using assms by (simp_all add: breakout_down_def py_div_def outcome_of_pair Let_def)

lemma breakout_down_emitted:
  assumes "p \<noteq> 0"
  shows "emitted (breakout_down dt cl p h s) =
           (if \<not> filter_down s ((h - p) / p) \<and> raised (breakout_down dt cl p h s) = None \<and> on_breakout s
            then [OnBreakout (symbol s) dt (trend s) cl (Some p) (high s)] else [])"
  using assms by (simp add: breakout_down_def py_div_def outcome_of_pair Let_def)

lemma breakout_down_raised:
  assumes "p \<noteq> 0"
  shows "raised (breakout_down dt cl p h s) =
           (if filter_down s ((h - p) / p) then None
            else fst (record_line ''r'' (s\<lparr> spl := None, spl_dt := None, bars_since := 0,
                                           coc := high s, coc_dt := high_dt s \<rparr>)))"
  using assms by (simp add: breakout_down_def py_div_def outcome_of_pair Let_def)

lemma identify_down_cases [consumes 1, case_names breakout new_low reversal quiet]:
  assumes "trend s = Some DOWN"
  obtains
    p h where "spl s = Some p" "p \<noteq> 0" "cl < p" "high (track_down dt hi lo s) = Some h"
      "identify dt hi lo cl s = breakout_down dt cl p h (track_down dt hi lo s)"
  | "\<not> truthy (spl s)" "and_lt (low s) lo"
      "identify dt hi lo cl s =
         Return (s\<lparr> low := Some lo, low_dt := Some dt, high := Some hi, high_dt := Some dt \<rparr>) []"
  | "\<not> and_lt (spl s) cl" "truthy (spl s) \<or> \<not> and_lt (low s) lo" "and_gt (coc s) cl"
      "identify dt hi lo cl s =
         reverse_up dt hi cl
           (pullback_down dt hi (if truthy (spl s) then track_down dt hi lo s else s))"
  | "\<not> and_lt (spl s) cl" "truthy (spl s) \<or> \<not> and_lt (low s) lo" "\<not> and_gt (coc s) cl"
      "identify dt hi lo cl s =
         Return (pullback_down dt hi (if truthy (spl s) then track_down dt hi lo s else s)) []"
proof -
  have id: "identify dt hi lo cl s = identify_down dt hi lo cl s"
    using assms by (simp add: identify_def)
  show thesis
  proof (cases "truthy (spl s)")
    case True
    then obtain p where p: "spl s = Some p" "p \<noteq> 0"
      by (auto simp: truthy_def split: option.splits)
    show thesis
    proof (cases "cl < p")
      case True
      with p identify_down_breakout[OF p True, of dt hi lo] id show thesis
        by (auto intro: that(1))
    next
      case False
      with p have nb: "\<not> and_lt (spl s) cl" by (simp add: and_lt_def)
      have ft: "identify dt hi lo cl s = down_formation dt hi lo cl (track_down dt hi lo s)"
        using identify_down_fall_through[OF p False] id by simp
      show thesis
      proof (cases "and_gt (coc s) cl")
        case True
        then show thesis
          using nb \<open>truthy (spl s)\<close> ft
            down_formation_reversal[OF track_down_settled(1), of dt hi lo s cl]
          by (intro that(3)) simp_all
      next
        case False
        then show thesis
          using nb \<open>truthy (spl s)\<close> ft
            down_formation_quiet[OF track_down_settled(1), of dt hi lo s cl]
          by (intro that(4)) simp_all
      qed
    qed
  next
    case False
    then have nb: "\<not> and_lt (spl s) cl"
      by (auto simp: truthy_def and_lt_def split: option.splits)
    have ft: "identify dt hi lo cl s = down_formation dt hi lo cl s"
      using identify_down_no_pivot[OF False] id by simp
    show thesis
    proof (cases "and_lt (low s) lo")
      case True
      then show thesis using False ft down_formation_new_low[OF True]
        by (intro that(2)) simp_all
    next
      case nh: False
      show thesis
      proof (cases "and_gt (coc s) cl")
        case True
        then show thesis using nb nh False ft down_formation_reversal[OF nh True]
          by (intro that(3)) simp_all
      next
        case nr: False
        then show thesis using nb nh False ft down_formation_quiet[OF nh nr]
          by (intro that(4)) simp_all
      qed
    qed
  qed
qed

subsection \<open>No trend yet\<close>

lemma identify_unset_cases [consumes 1, case_names first_candle later]:
  assumes "trend s = None"
  obtains
    "high s = None \<or> low s = None"
    "identify dt hi lo cl s =
       Return (s\<lparr> high := Some hi, low := Some lo, high_dt := Some dt, low_dt := Some dt \<rparr>) []"
  | h l s' where "high s = Some h" "low s = Some l"
    "identify dt hi lo cl s = Return s' []"
    "sph s' = sph s" "spl s' = spl s" "bars_since s' = bars_since s"
    "trend s' = (if cl > h then Some UP else if cl < l then Some DOWN else None)"
    "coc s' = (if cl > h then Some l else if cl < l then Some h else coc s)"
    "plot s' = plot s" "df s' = df s"
proof (cases "high s = None \<or> low s = None")
  case True
  then have "identify dt hi lo cl s =
       Return (s\<lparr> high := Some hi, low := Some lo, high_dt := Some dt, low_dt := Some dt \<rparr>) []"
    using assms by (auto simp: identify_def identify_unset_def split: option.splits)
  with True show thesis by (rule that(1))
next
  case False
  then obtain h l where hl: "high s = Some h" "low s = Some l" by auto
  let ?r = "identify dt hi lo cl s"
  have "raised ?r = None"
    using assms hl by (simp add: identify_def identify_unset_def Let_def)
  then have r: "?r = Return (post ?r) []"
    using assms hl by (simp add: identify_def identify_unset_def Let_def)
  show thesis
    by (rule that(2)[OF hl r])
       (use assms hl in \<open>simp_all add: identify_def identify_unset_def Let_def\<close>)
qed

subsection \<open>Swing points and trend\<close>

lemma identify_consistent:
  assumes "pivots_consistent s"
  shows "pivots_consistent (post (identify dt hi lo cl s))"
proof (cases "trend s")
  case None
  then show ?thesis
  proof (cases rule: identify_unset_cases[where dt = dt and hi = hi and lo = lo and cl = cl])
    case first_candle
    then show ?thesis using assms None by (simp add: pivots_consistent_def)
  next
    case (later h l s')
    then show ?thesis using assms None by (simp add: pivots_consistent_def)
  qed
next
  case (Some d)
  show ?thesis
  proof (cases d)
    case UP
    with Some have up: "trend s = Some UP" by simp
    then show ?thesis
    proof (cases rule: identify_up_cases[where dt = dt and hi = hi and lo = lo and cl = cl])
      case (breakout p l)
      then show ?thesis using assms up
        by (simp add: pivots_consistent_def breakout_up_fields)
    next
      case new_high
      then show ?thesis using assms up by (simp add: pivots_consistent_def)
    next
      case reversal
      then show ?thesis using assms up
        by (simp add: pivots_consistent_def post_reverse_down)
    next
      case quiet
      then show ?thesis using assms up by (simp add: pivots_consistent_def)
    qed
  next
    case DOWN
    with Some have down: "trend s = Some DOWN" by simp
    then show ?thesis
    proof (cases rule: identify_down_cases[where dt = dt and hi = hi and lo = lo and cl = cl])
      case (breakout p h)
      then show ?thesis using assms down
        by (simp add: pivots_consistent_def breakout_down_fields)
    next
      case new_low
      then show ?thesis using assms down by (simp add: pivots_consistent_def)
    next
      case reversal
      then show ?thesis using assms down
        by (simp add: pivots_consistent_def post_reverse_up)
    next
      case quiet
      then show ?thesis using assms down by (simp add: pivots_consistent_def)
    qed
  qed
qed

lemma reachable_consistent: "reachable s \<Longrightarrow> pivots_consistent s"
proof (induction rule: reachable.induct)
  case (reach_init pct sideways dbg)
  show ?case by (simp add: pivots_consistent_def init_def)
next
  case (reach_identify s dt hi lo cl)
  then show ?case by (simp add: identify_consistent)
next
  case (reach_reset s)
  show ?case by (simp add: pivots_consistent_def reset_def Let_def)
next
  case (reach_hooks s r b)
  have "\<And>x y. pivots_consistent (s\<lparr> on_reversal := x, on_breakout := y \<rparr>) = pivots_consistent s"
    by (simp add: pivots_consistent_def)
  with reach_hooks.IH show ?case by simp
qed

lemma reachable_feed: "reachable s \<Longrightarrow> reachable (post (feed bars s))"
proof (induction bars arbitrary: s)
  case Nil
  then show ?case by simp
next
  case (Cons b bars)
  obtain dt hi lo cl where b: "b = (dt, hi, lo, cl)" by (cases b) auto
  let ?r = "identify dt hi lo cl s"
  have r1: "reachable (post ?r)" using Cons.prems by (rule reach_identify)
  show ?case
  proof (cases ?r)
    case (Return s' ev)
    with r1 have "reachable s'" by simp
    then have "reachable (post (feed bars s'))" by (rule Cons.IH)
    then show ?thesis using b Return by (cases "feed bars s'") simp_all
  next
    case (Raise e s' ev)
    with r1 b show ?thesis by simp
  qed
qed

lemma reachable_up_pending: "reachable up_pending"
  unfolding up_pending_def fresh_def
  by (intro reachable_feed reach_hooks reach_init)

lemma reachable_down_pending: "reachable down_pending"
  unfolding down_pending_def fresh_def
  by (intro reachable_feed reach_hooks reach_init)

lemma up_zero_pivot_eq:
  "up_zero_pivot = \<lparr> trend = Some UP, df = None, high = Some 0, low = Some (- 3),
     coc = Some (- 8), sph = Some 0, spl = None, high_dt = Some 1, low_dt = Some 2,
     coc_dt = Some 0, sph_dt = Some 1, spl_dt = None, retrace_threshold = Some (1 / 20),
     sideways_threshold = 20, symbol = None, plot = False, plot_lines = [],
     plot_colors = [], bars_since = 1, debug = False, on_reversal = True,
     on_breakout = True \<rparr>"
  by (simp add: up_zero_pivot_def fresh_eq eval_defs)

lemma up_zero_coc_eq:
  "up_zero_coc = \<lparr> trend = Some UP, df = None, high = Some 8, low = Some 0, coc = Some 0,
     sph = None, spl = None, high_dt = Some 1, low_dt = Some 0, coc_dt = Some 0,
     sph_dt = None, spl_dt = None, retrace_threshold = Some (1 / 20),
     sideways_threshold = 20, symbol = None, plot = False, plot_lines = [],
     plot_colors = [], bars_since = 0, debug = False, on_reversal = True,
     on_breakout = True \<rparr>"
  by (simp add: up_zero_coc_def fresh_eq eval_defs)

lemma down_zero_pivot_eq:
  "down_zero_pivot = \<lparr> trend = Some DOWN, df = None, high = Some 3, low = Some 0,
     coc = Some 8, sph = None, spl = Some 0, high_dt = Some 2, low_dt = Some 1,
     coc_dt = Some 0, sph_dt = None, spl_dt = Some 1, retrace_threshold = Some (1 / 20),
     sideways_threshold = 20, symbol = None, plot = False, plot_lines = [],
     plot_colors = [], bars_since = 1, debug = False, on_reversal = True,
     on_breakout = True \<rparr>"
  by (simp add: down_zero_pivot_def fresh_eq eval_defs)

lemma down_zero_coc_eq:
  "down_zero_coc = \<lparr> trend = Some DOWN, df = None, high = Some 0, low = Some (- 8),
     coc = Some 0, sph = None, spl = None, high_dt = Some 0, low_dt = Some 1,
     coc_dt = Some 0, sph_dt = None, spl_dt = None, retrace_threshold = Some (1 / 20),
     sideways_threshold = 20, symbol = None, plot = False, plot_lines = [],
     plot_colors = [], bars_since = 0, debug = False, on_reversal = True,
     on_breakout = True \<rparr>"
  by (simp add: down_zero_coc_def fresh_eq eval_defs)

subsection \<open>What a call can raise and emit\<close>

lemma switch_err:
  "fst (switch_downtrend dt lo s) = Some e \<Longrightarrow> e = ValueError \<or> e = KeyError \<or> e = TypeError"
  "fst (switch_uptrend dt hi s) = Some e \<Longrightarrow> e = ValueError \<or> e = KeyError \<or> e = TypeError"
  by (auto simp: switch_downtrend_def switch_uptrend_def dest: record_line_err)

text \<open>
  Only the lookup of the end of a line raises: \<^verbatim>\<open>ValueError\<close> without a table,
  \<^verbatim>\<open>KeyError\<close> for a label that is not in the index, \<^verbatim>\<open>TypeError\<close> for a label
  repeated in an unsorted index.
\<close>

lemma identify_raises_lookup_errors_only:
  assumes "raised (identify dt hi lo cl s) = Some e"
  shows "e = ValueError \<or> e = KeyError \<or> e = TypeError"
proof (cases "trend s")
  case None
  then show ?thesis using assms
    by (cases rule: identify_unset_cases[where dt = dt and hi = hi and lo = lo and cl = cl]) simp_all
next
  case (Some d)
  show ?thesis
  proof (cases d)
    case UP
    with Some have "trend s = Some UP" by simp
    then show ?thesis using assms
    proof (cases rule: identify_up_cases[where dt = dt and hi = hi and lo = lo and cl = cl])
      case (breakout p l)
      then show ?thesis using assms
        by (auto simp: breakout_up_raised split: if_splits dest: record_line_err)
    next
      case reversal
      then show ?thesis using assms by (auto simp: post_reverse_down dest: switch_err)
    qed simp_all
  next
    case DOWN
    with Some have "trend s = Some DOWN" by simp
    then show ?thesis using assms
    proof (cases rule: identify_down_cases[where dt = dt and hi = hi and lo = lo and cl = cl])
      case (breakout p h)
      then show ?thesis using assms
        by (auto simp: breakout_down_raised split: if_splits dest: record_line_err)
    next
      case reversal
      then show ?thesis using assms by (auto simp: post_reverse_up dest: switch_err)
    qed simp_all
  qed
qed

lemma zero_sph_skips_breakout:
  assumes "trend s = Some UP" "sph s = Some 0"
  shows "identify dt hi lo cl s = up_formation dt hi lo cl s"
    and "\<forall>ev \<in> set (emitted (identify dt hi lo cl s)). \<not> is_breakout ev"
proof -
  have nt: "\<not> truthy (sph s)" using assms by (simp add: truthy_def)
  show eq: "identify dt hi lo cl s = up_formation dt hi lo cl s"
    using assms identify_up_no_pivot[OF nt] by (simp add: identify_def)
  show "\<forall>ev \<in> set (emitted (identify dt hi lo cl s)). \<not> is_breakout ev"
    unfolding eq
    by (simp add: up_formation_def Let_def post_reverse_down is_breakout_def)
qed

lemma zero_spl_skips_breakout:
  assumes "trend s = Some DOWN" "spl s = Some 0"
  shows "identify dt hi lo cl s = down_formation dt hi lo cl s"
    and "\<forall>ev \<in> set (emitted (identify dt hi lo cl s)). \<not> is_breakout ev"
proof -
  have nt: "\<not> truthy (spl s)" using assms by (simp add: truthy_def)
  show eq: "identify dt hi lo cl s = down_formation dt hi lo cl s"
    using assms identify_down_no_pivot[OF nt] by (simp add: identify_def)
  show "\<forall>ev \<in> set (emitted (identify dt hi lo cl s)). \<not> is_breakout ev"
    unfolding eq
    by (simp add: down_formation_def Let_def post_reverse_up is_breakout_def)
qed

lemma zero_coc_up_never_reverses:
  assumes "trend s = Some UP" "coc s = Some 0"
  shows "trend (post (identify dt hi lo cl s)) = Some UP"
    and "\<forall>ev \<in> set (emitted (identify dt hi lo cl s)). \<not> is_reversal ev"
proof -
  have nl: "\<not> and_lt (coc s) cl" using assms by (simp add: and_lt_def)
  from assms(1) show "trend (post (identify dt hi lo cl s)) = Some UP"
    by (cases rule: identify_up_cases[where dt = dt and hi = hi and lo = lo and cl = cl])
       (use nl assms in \<open>simp_all add: breakout_up_fields\<close>)
  from assms(1) show "\<forall>ev \<in> set (emitted (identify dt hi lo cl s)). \<not> is_reversal ev"
    by (cases rule: identify_up_cases[where dt = dt and hi = hi and lo = lo and cl = cl])
       (use nl assms in \<open>simp_all add: breakout_up_emitted is_reversal_def\<close>)
qed

lemma zero_coc_down_never_reverses:
  assumes "trend s = Some DOWN" "coc s = Some 0"
  shows "trend (post (identify dt hi lo cl s)) = Some DOWN"
    and "\<forall>ev \<in> set (emitted (identify dt hi lo cl s)). \<not> is_reversal ev"
proof -
  have nl: "\<not> and_gt (coc s) cl" using assms by (simp add: and_gt_def)
  from assms(1) show "trend (post (identify dt hi lo cl s)) = Some DOWN"
    by (cases rule: identify_down_cases[where dt = dt and hi = hi and lo = lo and cl = cl])
       (use nl assms in \<open>simp_all add: breakout_down_fields\<close>)
  from assms(1) show "\<forall>ev \<in> set (emitted (identify dt hi lo cl s)). \<not> is_reversal ev"
    by (cases rule: identify_down_cases[where dt = dt and hi = hi and lo = lo and cl = cl])
       (use nl assms in \<open>simp_all add: breakout_down_emitted is_reversal_def\<close>)
qed

lemma up_breakout_ends_bar:
  assumes "trend s = Some UP" "sph s = Some p" "p \<noteq> 0" "cl > p"
  shows "\<exists>l. low (track_up dt hi lo s) = Some l
             \<and> identify dt hi lo cl s = breakout_up dt cl p l (track_up dt hi lo s)"
    and "trend (post (identify dt hi lo cl s)) = Some UP"
    and "sph (post (identify dt hi lo cl s)) = None"
    and "bars_since (post (identify dt hi lo cl s)) = 0"
    and "high (post (identify dt hi lo cl s)) = high (track_up dt hi lo s)"
    and "low (post (identify dt hi lo cl s)) = low (track_up dt hi lo s)"
    and "\<forall>ev \<in> set (emitted (identify dt hi lo cl s)). is_breakout ev"
proof -
  obtain l where l: "low (track_up dt hi lo s) = Some l"
    and eq: "identify dt hi lo cl s = breakout_up dt cl p l (track_up dt hi lo s)"
    using identify_up_breakout[OF assms(2-4), of dt hi lo] assms(1)
    by (auto simp: identify_def)
  from l eq show "\<exists>l. low (track_up dt hi lo s) = Some l
             \<and> identify dt hi lo cl s = breakout_up dt cl p l (track_up dt hi lo s)"
    by blast
  show "trend (post (identify dt hi lo cl s)) = Some UP"
    unfolding eq using assms by (simp add: breakout_up_fields del: track_up_fields(2-5))
  show "sph (post (identify dt hi lo cl s)) = None"
    unfolding eq using assms by (simp add: breakout_up_fields)
  show "bars_since (post (identify dt hi lo cl s)) = 0"
    unfolding eq using assms by (simp add: breakout_up_fields)
  show "high (post (identify dt hi lo cl s)) = high (track_up dt hi lo s)"
    unfolding eq by (rule breakout_up_fields(6)[OF assms(3)])
  show "low (post (identify dt hi lo cl s)) = low (track_up dt hi lo s)"
    unfolding eq by (rule breakout_up_fields(7)[OF assms(3)])
  show "\<forall>ev \<in> set (emitted (identify dt hi lo cl s)). is_breakout ev"
    unfolding eq using assms by (simp add: breakout_up_emitted is_breakout_def)
qed

lemma up_no_breakout_falls_through:
  assumes "trend s = Some UP" "sph s = Some p" "p \<noteq> 0" "\<not> cl > p"
  shows "identify dt hi lo cl s = up_formation dt hi lo cl (track_up dt hi lo s)"
  using identify_up_fall_through[OF assms(2-4), of dt hi lo] assms(1)
  by (simp add: identify_def)

lemma down_breakout_ends_bar:
  assumes "trend s = Some DOWN" "spl s = Some p" "p \<noteq> 0" "cl < p"
  shows "\<exists>h. high (track_down dt hi lo s) = Some h
             \<and> identify dt hi lo cl s = breakout_down dt cl p h (track_down dt hi lo s)"
    and "trend (post (identify dt hi lo cl s)) = Some DOWN"
    and "spl (post (identify dt hi lo cl s)) = None"
    and "bars_since (post (identify dt hi lo cl s)) = 0"
    and "low (post (identify dt hi lo cl s)) = low (track_down dt hi lo s)"
    and "high (post (identify dt hi lo cl s)) = high (track_down dt hi lo s)"
    and "\<forall>ev \<in> set (emitted (identify dt hi lo cl s)). is_breakout ev"
proof -
  obtain h where h: "high (track_down dt hi lo s) = Some h"
    and eq: "identify dt hi lo cl s = breakout_down dt cl p h (track_down dt hi lo s)"
    using identify_down_breakout[OF assms(2-4), of dt hi lo] assms(1)
    by (auto simp: identify_def)
  from h eq show "\<exists>h. high (track_down dt hi lo s) = Some h
             \<and> identify dt hi lo cl s = breakout_down dt cl p h (track_down dt hi lo s)"
    by blast
  show "trend (post (identify dt hi lo cl s)) = Some DOWN"
    unfolding eq using assms by (simp add: breakout_down_fields del: track_down_fields(2-5))
  show "spl (post (identify dt hi lo cl s)) = None"
    unfolding eq using assms by (simp add: breakout_down_fields)
  show "bars_since (post (identify dt hi lo cl s)) = 0"
    unfolding eq using assms by (simp add: breakout_down_fields)
  show "low (post (identify dt hi lo cl s)) = low (track_down dt hi lo s)"
    unfolding eq by (rule breakout_down_fields(6)[OF assms(3)])
  show "high (post (identify dt hi lo cl s)) = high (track_down dt hi lo s)"
    unfolding eq by (rule breakout_down_fields(7)[OF assms(3)])
  show "\<forall>ev \<in> set (emitted (identify dt hi lo cl s)). is_breakout ev"
    unfolding eq using assms by (simp add: breakout_down_emitted is_breakout_def)
qed

lemma down_no_breakout_falls_through:
  assumes "trend s = Some DOWN" "spl s = Some p" "p \<noteq> 0" "\<not> cl < p"
  shows "identify dt hi lo cl s = down_formation dt hi lo cl (track_down dt hi lo s)"
  using identify_down_fall_through[OF assms(2-4), of dt hi lo] assms(1)
  by (simp add: identify_def)

subsection \<open>The bar count\<close>

lemma maybe_track_up [simp]:
  "trend (if b then track_up dt hi lo s else s) = trend s"
  "sph (if b then track_up dt hi lo s else s) = sph s"
  "sph_dt (if b then track_up dt hi lo s else s) = sph_dt s"
  "spl (if b then track_up dt hi lo s else s) = spl s"
  "coc (if b then track_up dt hi lo s else s) = coc s"
  "coc_dt (if b then track_up dt hi lo s else s) = coc_dt s"
  "plot (if b then track_up dt hi lo s else s) = plot s"
  "df (if b then track_up dt hi lo s else s) = df s"
  "symbol (if b then track_up dt hi lo s else s) = symbol s"
  "on_reversal (if b then track_up dt hi lo s else s) = on_reversal s"
  "on_breakout (if b then track_up dt hi lo s else s) = on_breakout s"
  by simp_all

lemma up_bars_since:
  assumes up: "trend s = Some UP"
  shows "and_gt (sph s) cl \<Longrightarrow> bars_since (post (identify dt hi lo cl s)) = 0"
    and "trend (post (identify dt hi lo cl s)) \<noteq> Some UP \<Longrightarrow>
         bars_since (post (identify dt hi lo cl s)) = 0"
    and "sph s = None \<Longrightarrow> sph (post (identify dt hi lo cl s)) \<noteq> None \<Longrightarrow>
         bars_since (post (identify dt hi lo cl s)) = 1"
    and "truthy (sph s) \<Longrightarrow> \<not> and_gt (sph s) cl \<Longrightarrow>
         trend (post (identify dt hi lo cl s)) = Some UP \<Longrightarrow>
         bars_since (post (identify dt hi lo cl s)) = bars_since s + 1"
proof -
  let ?r = "identify dt hi lo cl s"
  show "bars_since (post ?r) = 0" if "and_gt (sph s) cl"
    using up
  proof (cases rule: identify_up_cases[where dt = dt and hi = hi and lo = lo and cl = cl])
    case (breakout p l)
    then show ?thesis by (simp add: breakout_up_fields)
  qed (use that in \<open>auto simp: truthy_def and_gt_def split: option.splits\<close>)
  show "bars_since (post ?r) = 0" if "trend (post ?r) \<noteq> Some UP"
    using up
  proof (cases rule: identify_up_cases[where dt = dt and hi = hi and lo = lo and cl = cl])
    case (breakout p l)
    then show ?thesis by (simp add: breakout_up_fields)
  next
    case reversal
    then show ?thesis by (simp add: post_reverse_down)
  qed (use that up in simp_all)
  show "bars_since (post ?r) = 1" if "sph s = None" "sph (post ?r) \<noteq> None"
    using up
  proof (cases rule: identify_up_cases[where dt = dt and hi = hi and lo = lo and cl = cl])
    case reversal
    then show ?thesis using that by (simp add: post_reverse_down)
  next
    case quiet
    then show ?thesis using that by (simp add: truthy_def)
  qed (use that in simp_all)
  show "bars_since (post ?r) = bars_since s + 1"
    if "truthy (sph s)" "\<not> and_gt (sph s) cl" "trend (post ?r) = Some UP"
    using up
  proof (cases rule: identify_up_cases[where dt = dt and hi = hi and lo = lo and cl = cl])
    case (breakout p l)
    then show ?thesis using that by (simp add: and_gt_def)
  next
    case reversal
    then show ?thesis using that by (simp add: post_reverse_down)
  next
    case quiet
    have "sph s \<noteq> None" using that(1) by (auto simp: truthy_def split: option.splits)
    then have "pullback_up dt lo (track_up dt hi lo s) = track_up dt hi lo s"
      by (rule pullback_up_pending)
    then show ?thesis using quiet that(1) by simp
  qed (use that in simp_all)
qed

text \<open>The same under DOWN.\<close>

lemma maybe_track_down [simp]:
  "trend (if b then track_down dt hi lo s else s) = trend s"
  "spl (if b then track_down dt hi lo s else s) = spl s"
  "spl_dt (if b then track_down dt hi lo s else s) = spl_dt s"
  "sph (if b then track_down dt hi lo s else s) = sph s"
  "coc (if b then track_down dt hi lo s else s) = coc s"
  "coc_dt (if b then track_down dt hi lo s else s) = coc_dt s"
  "plot (if b then track_down dt hi lo s else s) = plot s"
  "df (if b then track_down dt hi lo s else s) = df s"
  "symbol (if b then track_down dt hi lo s else s) = symbol s"
  "on_reversal (if b then track_down dt hi lo s else s) = on_reversal s"
  "on_breakout (if b then track_down dt hi lo s else s) = on_breakout s"
  by simp_all

lemma down_bars_since:
  assumes down: "trend s = Some DOWN"
  shows "and_lt (spl s) cl \<Longrightarrow> bars_since (post (identify dt hi lo cl s)) = 0"
    and "trend (post (identify dt hi lo cl s)) \<noteq> Some DOWN \<Longrightarrow>
         bars_since (post (identify dt hi lo cl s)) = 0"
    and "spl s = None \<Longrightarrow> spl (post (identify dt hi lo cl s)) \<noteq> None \<Longrightarrow>
         bars_since (post (identify dt hi lo cl s)) = 1"
    and "truthy (spl s) \<Longrightarrow> \<not> and_lt (spl s) cl \<Longrightarrow>
         trend (post (identify dt hi lo cl s)) = Some DOWN \<Longrightarrow>
         bars_since (post (identify dt hi lo cl s)) = bars_since s + 1"
proof -
  let ?g = "identify dt hi lo cl s"
  show "bars_since (post ?g) = 0" if "and_lt (spl s) cl"
    using down
  proof (cases rule: identify_down_cases[where dt = dt and lo = lo and hi = hi and cl = cl])
    case (breakout p h)
    then show ?thesis by (simp add: breakout_down_fields)
  qed (use that in \<open>auto simp: truthy_def and_lt_def split: option.splits\<close>)
  show "bars_since (post ?g) = 0" if "trend (post ?g) \<noteq> Some DOWN"
    using down
  proof (cases rule: identify_down_cases[where dt = dt and lo = lo and hi = hi and cl = cl])
    case (breakout p h)
    then show ?thesis by (simp add: breakout_down_fields)
  next
    case reversal
    then show ?thesis by (simp add: post_reverse_up)
  qed (use that down in simp_all)
  show "bars_since (post ?g) = 1" if "spl s = None" "spl (post ?g) \<noteq> None"
    using down
  proof (cases rule: identify_down_cases[where dt = dt and lo = lo and hi = hi and cl = cl])
    case reversal
    then show ?thesis using that by (simp add: post_reverse_up)
  next
    case quiet
    then show ?thesis using that by (simp add: truthy_def)
  qed (use that in simp_all)
  show "bars_since (post ?g) = bars_since s + 1"
    if "truthy (spl s)" "\<not> and_lt (spl s) cl" "trend (post ?g) = Some DOWN"
    using down
  proof (cases rule: identify_down_cases[where dt = dt and lo = lo and hi = hi and cl = cl])
    case (breakout p h)
    then show ?thesis using that by (simp add: and_lt_def)
  next
    case reversal
    then show ?thesis using that by (simp add: post_reverse_up)
  next
    case quiet
    have "spl s \<noteq> None" using that(1) by (auto simp: truthy_def split: option.splits)
    then have "pullback_down dt hi (track_down dt hi lo s) = track_down dt hi lo s"
      by (rule pullback_down_pending)
    then show ?thesis using quiet that(1) by simp
  qed (use that in simp_all)
qed

lemma down_started_eq:
  "down_started = \<lparr> trend = Some DOWN, df = None, high = Some 10, low = Some 6,
     coc = Some 10, sph = None, spl = None, high_dt = Some 0, low_dt = Some 1,
     coc_dt = Some 0, sph_dt = None, spl_dt = None, retrace_threshold = Some (1 / 20),
     sideways_threshold = 20, symbol = None, plot = False, plot_lines = [],
     plot_colors = [], bars_since = 0, debug = False, on_reversal = True,
     on_breakout = True \<rparr>"
  by (simp add: down_started_def fresh_eq eval_defs)

lemma recorded_eq:
  "recorded = \<lparr> trend = Some UP,
     df = Some [(0, 9, 10, 8, 9), (1, 9, 12, 9, 11), (2, 11, 11, 9, 10), (3, 10, 13, 10, 25 / 2)],
     high = Some 13, low = Some 9, coc = Some 9, sph = None, spl = None,
     high_dt = Some 3, low_dt = Some 2, coc_dt = Some 2, sph_dt = None, spl_dt = None,
     retrace_threshold = Some (1 / 20), sideways_threshold = 20, symbol = Some ''ACME'',
     plot = True, plot_lines = [((Some 2, Some 9), (3, Some 9))], plot_colors = [''g''],
     bars_since = 0, debug = False, on_reversal = True, on_breakout = True \<rparr>"
  by (simp add: recorded_def fresh_eq eval_defs line_end_dt_def get_loc_def upt_rec)

subsection \<open>The retrace filter on a breakout\<close>

lemma up_breakout_filter:
  assumes "trend s = Some UP" "sph s = Some p" "p \<noteq> 0" "cl > p"
    and "retrace_threshold s = Some t" "t \<noteq> 0"
    and l: "low (track_up dt hi lo s) = Some l"
  shows "\<bar>(l - p) / p\<bar> < t \<Longrightarrow>
           coc (post (identify dt hi lo cl s)) = coc s
           \<and> raised (identify dt hi lo cl s) = None \<and> emitted (identify dt hi lo cl s) = []"
    and "\<not> \<bar>(l - p) / p\<bar> < t \<Longrightarrow>
           coc (post (identify dt hi lo cl s)) = Some l
           \<and> (raised (identify dt hi lo cl s) = None \<longrightarrow>
                emitted (identify dt hi lo cl s) =
                  (if on_breakout s then [OnBreakout (symbol s) dt (Some UP) cl (Some p) (Some l)]
                   else []))"
    and "sph (post (identify dt hi lo cl s)) = None"
    and "bars_since (post (identify dt hi lo cl s)) = 0"
proof -
  have eq: "identify dt hi lo cl s = breakout_up dt cl p l (track_up dt hi lo s)"
    using identify_up_breakout[OF assms(2-4), of dt hi lo] assms(1) l
    by (auto simp: identify_def)
  have f: "filter_up (track_up dt hi lo s) r = (\<bar>r\<bar> < t)" for r
    using assms(5,6) by (simp add: filter_up_def)
  show "\<bar>(l - p) / p\<bar> < t \<Longrightarrow>
           coc (post (identify dt hi lo cl s)) = coc s
           \<and> raised (identify dt hi lo cl s) = None \<and> emitted (identify dt hi lo cl s) = []"
    unfolding eq using assms(3) f
    by (simp add: breakout_up_fields breakout_up_emitted breakout_up_raised)
  show "\<not> \<bar>(l - p) / p\<bar> < t \<Longrightarrow>
           coc (post (identify dt hi lo cl s)) = Some l
           \<and> (raised (identify dt hi lo cl s) = None \<longrightarrow>
                emitted (identify dt hi lo cl s) =
                  (if on_breakout s then [OnBreakout (symbol s) dt (Some UP) cl (Some p) (Some l)]
                   else []))"
    unfolding eq using assms(1,3) f l
    by (simp add: breakout_up_fields breakout_up_emitted del: track_up_fields(4))
  show "sph (post (identify dt hi lo cl s)) = None"
    unfolding eq using assms(3) by (simp add: breakout_up_fields)
  show "bars_since (post (identify dt hi lo cl s)) = 0"
    unfolding eq using assms(3) by (simp add: breakout_up_fields)
qed

lemma down_breakout_filter:
  assumes "trend s = Some DOWN" "spl s = Some p" "p \<noteq> 0" "cl < p"
    and "retrace_threshold s = Some t" "t \<noteq> 0"
    and h: "high (track_down dt hi lo s) = Some h"
  shows "(h - p) / p < t \<Longrightarrow>
           coc (post (identify dt hi lo cl s)) = coc s
           \<and> raised (identify dt hi lo cl s) = None \<and> emitted (identify dt hi lo cl s) = []"
    and "\<not> (h - p) / p < t \<Longrightarrow>
           coc (post (identify dt hi lo cl s)) = Some h
           \<and> (raised (identify dt hi lo cl s) = None \<longrightarrow>
                emitted (identify dt hi lo cl s) =
                  (if on_breakout s then [OnBreakout (symbol s) dt (Some DOWN) cl (Some p) (Some h)]
                   else []))"
    and "spl (post (identify dt hi lo cl s)) = None"
    and "bars_since (post (identify dt hi lo cl s)) = 0"
proof -
  have eq: "identify dt hi lo cl s = breakout_down dt cl p h (track_down dt hi lo s)"
    using identify_down_breakout[OF assms(2-4), of dt hi lo] assms(1) h
    by (auto simp: identify_def)
  have f: "filter_down (track_down dt hi lo s) r = (r < t)" for r
    using assms(5,6) by (simp add: filter_down_def)
  show "(h - p) / p < t \<Longrightarrow>
           coc (post (identify dt hi lo cl s)) = coc s
           \<and> raised (identify dt hi lo cl s) = None \<and> emitted (identify dt hi lo cl s) = []"
    unfolding eq using assms(3) f
    by (simp add: breakout_down_fields breakout_down_emitted breakout_down_raised)
  show "\<not> (h - p) / p < t \<Longrightarrow>
           coc (post (identify dt hi lo cl s)) = Some h
           \<and> (raised (identify dt hi lo cl s) = None \<longrightarrow>
                emitted (identify dt hi lo cl s) =
                  (if on_breakout s then [OnBreakout (symbol s) dt (Some DOWN) cl (Some p) (Some h)]
                   else []))"
    unfolding eq using assms(1,3) f h
    by (simp add: breakout_down_fields breakout_down_emitted del: track_down_fields(4))
  show "spl (post (identify dt hi lo cl s)) = None"
    unfolding eq using assms(3) by (simp add: breakout_down_fields)
  show "bars_since (post (identify dt hi lo cl s)) = 0"
    unfolding eq using assms(3) by (simp add: breakout_down_fields)
qed

text \<open>On a retracement that is not negative the two filters agree.\<close>

lemma filters_agree: "0 \<le> r \<Longrightarrow> filter_down s r = filter_up s r"
  by (simp add: filter_down_def filter_up_def split: option.splits)

subsection \<open>Bars that neither break out nor reverse\<close>






subsection \<open>Recording on, table unbound\<close>

text \<open>
  The blocks that do not record take the recording flag and the hooks along unchanged.
\<close>

lemma track_up_flags:
  "track_up dt hi lo (s\<lparr> plot := a, on_reversal := b, on_breakout := c \<rparr>)
     = (track_up dt hi lo s)\<lparr> plot := a, on_reversal := b, on_breakout := c \<rparr>"
  by (simp add: track_up_def Let_def)

lemma pullback_up_flags:
  "pullback_up dt lo (s\<lparr> plot := a, on_reversal := b, on_breakout := c \<rparr>)
     = (pullback_up dt lo s)\<lparr> plot := a, on_reversal := b, on_breakout := c \<rparr>"
  by (simp add: pullback_up_def Let_def)

lemma identify_unset_flags:
  "raised (identify_unset dt hi lo cl s) = None"
  "emitted (identify_unset dt hi lo cl s) = []"
  "post (identify_unset dt hi lo cl (s\<lparr> plot := a, on_reversal := b, on_breakout := c \<rparr>))
     = (post (identify_unset dt hi lo cl s))\<lparr> plot := a, on_reversal := b, on_breakout := c \<rparr>"
  "plot (post (identify_unset dt hi lo cl s)) = plot s"
  "on_reversal (post (identify_unset dt hi lo cl s)) = on_reversal s"
  "on_breakout (post (identify_unset dt hi lo cl s)) = on_breakout s"
  by (simp_all add: identify_unset_def Let_def split: option.splits)

text \<open>The breakout and the reversal, with recording off and with the table unbound.\<close>

lemma breakout_up_off:
  assumes "p \<noteq> 0" "\<not> plot s"
  shows "breakout_up dt cl p l s =
           (if filter_up s ((l - p) / p) then
              Return (s\<lparr> sph := None, sph_dt := None, bars_since := 0 \<rparr>) []
            else
              Return (s\<lparr> sph := None, sph_dt := None, bars_since := 0,
                         coc := low s, coc_dt := low_dt s \<rparr>)
                (if on_breakout s then [OnBreakout (symbol s) dt (trend s) cl (Some p) (low s)]
                 else []))"
  using assms by (simp add: breakout_up_def py_div_def Let_def record_line_def)

lemma breakout_up_unbound:
  assumes "p \<noteq> 0" "plot s" "df s = None"
  shows "breakout_up dt cl p l s =
           (if filter_up s ((l - p) / p) then
              Return (s\<lparr> sph := None, sph_dt := None, bars_since := 0 \<rparr>) []
            else
              Raise ValueError (s\<lparr> sph := None, sph_dt := None, bars_since := 0,
                                   coc := low s, coc_dt := low_dt s \<rparr>) [])"
  using assms by (simp add: breakout_up_def py_div_def Let_def record_line_def line_end_dt_def)

lemma reverse_down_off:
  assumes "\<not> plot s"
  shows "reverse_down dt lo cl s =
           Return (s\<lparr> trend := Some DOWN, coc := high s, coc_dt := high_dt s, high := None,
                      sph := None, sph_dt := None, low := Some lo, low_dt := Some dt,
                      bars_since := 0 \<rparr>)
             (if on_reversal s then [OnReversal (symbol s) dt (Some DOWN) cl (high s) (coc s)]
              else [])"
  using assms by (simp add: reverse_down_def switch_downtrend_def Let_def record_line_def)

lemma reverse_down_unbound:
  assumes "plot s" "df s = None"
  shows "reverse_down dt lo cl s =
           Raise ValueError
             (s\<lparr> trend := Some DOWN, coc := high s, coc_dt := high_dt s, high := None,
                 sph := None, sph_dt := None, low := Some lo, low_dt := Some dt,
                 bars_since := 0 \<rparr>) []"
  using assms
  by (simp add: reverse_down_def switch_downtrend_def Let_def record_line_def line_end_dt_def)

lemma and_gt_truthy: "and_gt x v \<Longrightarrow> truthy x"
  by (simp add: and_gt_def truthy_def split: option.splits)

lemma and_lt_truthy: "and_lt x v \<Longrightarrow> truthy x"
  by (simp add: and_lt_def truthy_def split: option.splits)

lemma identify_up_takes_new_high:
  assumes "trend s = Some UP" "\<not> truthy (sph s)" "and_gt (high s) hi"
  shows "identify dt hi lo cl s =
           Return (s\<lparr> high := Some hi, high_dt := Some dt, low := Some lo, low_dt := Some dt \<rparr>) []"
  using assms(1)
  by (cases rule: identify_up_cases[where dt = dt and hi = hi and lo = lo and cl = cl])
     (use assms in \<open>simp_all add: truthy_def\<close>)

lemma identify_up_stays:
  assumes "trend s = Some UP" "\<not> and_gt (sph s) cl" "truthy (sph s) \<or> \<not> and_gt (high s) hi"
    "\<not> and_lt (coc s) cl"
  shows "identify dt hi lo cl s =
           Return (pullback_up dt lo (if truthy (sph s) then track_up dt hi lo s else s)) []"
  using assms(1)
  by (cases rule: identify_up_cases[where dt = dt and hi = hi and lo = lo and cl = cl])
     (use assms in \<open>simp_all add: and_gt_def\<close>)

lemma filter_flags [simp]:
  "filter_up (s\<lparr> plot := a, on_reversal := b, on_breakout := c \<rparr>) r = filter_up s r"
  "filter_down (s\<lparr> plot := a, on_reversal := b, on_breakout := c \<rparr>) r = filter_down s r"
  "filter_up (track_up dt hi lo s) r = filter_up s r"
  "filter_down (track_down dt hi lo s) r = filter_down s r"
  by (simp_all add: filter_up_def filter_down_def)

lemma restore_flags:
  "plot x \<Longrightarrow>
   x\<lparr> plot := False, on_reversal := True, on_breakout := True \<rparr>
    \<lparr> plot := True, on_reversal := on_reversal x, on_breakout := on_breakout x \<rparr> = x"
  by (cases x) simp

lemma unbound_up:
  assumes up: "trend s = Some UP" and pl: "plot s" and nodf: "df s = None"
  shows "raised (identify dt hi lo cl s) =
           (if emitted (identify dt hi lo cl
                          (s\<lparr> plot := False, on_reversal := True, on_breakout := True \<rparr>)) = []
            then None else Some ValueError)
         \<and> emitted (identify dt hi lo cl s) = []
         \<and> (post (identify dt hi lo cl s))\<lparr> plot := False, on_reversal := True, on_breakout := True \<rparr>
             = post (identify dt hi lo cl
                       (s\<lparr> plot := False, on_reversal := True, on_breakout := True \<rparr>))
         \<and> plot (post (identify dt hi lo cl s))"
proof -
  let ?f = "s\<lparr> plot := False, on_reversal := True, on_breakout := True \<rparr>"
  have up': "trend ?f = Some UP" using up by simp
  from up show ?thesis
  proof (cases rule: identify_up_cases[where dt = dt and hi = hi and lo = lo and cl = cl])
    case (breakout p l)
    have "\<exists>l'. low (track_up dt hi lo ?f) = Some l'
            \<and> identify_up dt hi lo cl ?f = breakout_up dt cl p l' (track_up dt hi lo ?f)"
      using breakout by (intro identify_up_breakout) simp_all
    then have f: "identify dt hi lo cl ?f = breakout_up dt cl p l (track_up dt hi lo ?f)"
      using up' breakout(4) by (auto simp: identify_def track_up_flags simp del: track_up_fields(4))
    show ?thesis
      unfolding f breakout(5) track_up_flags
      using breakout(2) pl nodf
      by (simp add: breakout_up_off breakout_up_unbound del: track_up_fields(2-5))
  next
    case new_high
    have f: "identify dt hi lo cl ?f =
        Return (?f\<lparr> high := Some hi, high_dt := Some dt, low := Some lo, low_dt := Some dt \<rparr>) []"
      using new_high up' by (intro identify_up_takes_new_high) simp_all
    show ?thesis unfolding f new_high(3) using pl by simp
  next
    case reversal
    have f: "identify dt hi lo cl ?f =
        reverse_down dt lo cl
          (pullback_up dt lo (if truthy (sph ?f) then track_up dt hi lo ?f else ?f))"
      using reversal up' by (intro identify_up_reverses) simp_all
    have g: "pullback_up dt lo (if truthy (sph ?f) then track_up dt hi lo ?f else ?f) =
        (pullback_up dt lo (if truthy (sph s) then track_up dt hi lo s else s))
          \<lparr> plot := False, on_reversal := True, on_breakout := True \<rparr>"
      by (simp add: track_up_flags pullback_up_flags)
    show ?thesis
      unfolding f g reversal(4)
      using pl nodf
      by (simp add: reverse_down_off reverse_down_unbound
            del: track_up_fields(2-5) pullback_up_fields(1-5))
  next
    case quiet
    have f: "identify dt hi lo cl ?f =
        Return (pullback_up dt lo (if truthy (sph ?f) then track_up dt hi lo ?f else ?f)) []"
      using quiet up' by (intro identify_up_stays) simp_all
    have g: "pullback_up dt lo (if truthy (sph ?f) then track_up dt hi lo ?f else ?f) =
        (pullback_up dt lo (if truthy (sph s) then track_up dt hi lo s else s))
          \<lparr> plot := False, on_reversal := True, on_breakout := True \<rparr>"
      by (simp add: track_up_flags pullback_up_flags)
    show ?thesis unfolding f g quiet(4) using pl by simp
  qed
qed

lemma track_down_flags:
  "track_down dt hi lo (s\<lparr> plot := a, on_reversal := b, on_breakout := c \<rparr>)
     = (track_down dt hi lo s)\<lparr> plot := a, on_reversal := b, on_breakout := c \<rparr>"
  by (simp add: track_down_def Let_def)

lemma pullback_down_flags:
  "pullback_down dt hi (s\<lparr> plot := a, on_reversal := b, on_breakout := c \<rparr>)
     = (pullback_down dt hi s)\<lparr> plot := a, on_reversal := b, on_breakout := c \<rparr>"
  by (simp add: pullback_down_def Let_def)

lemma breakout_down_off:
  assumes "p \<noteq> 0" "\<not> plot s"
  shows "breakout_down dt cl p h s =
           (if filter_down s ((h - p) / p) then
              Return (s\<lparr> spl := None, spl_dt := None, bars_since := 0 \<rparr>) []
            else
              Return (s\<lparr> spl := None, spl_dt := None, bars_since := 0,
                         coc := high s, coc_dt := high_dt s \<rparr>)
                (if on_breakout s then [OnBreakout (symbol s) dt (trend s) cl (Some p) (high s)]
                 else []))"
  using assms by (simp add: breakout_down_def py_div_def Let_def record_line_def)

lemma breakout_down_unbound:
  assumes "p \<noteq> 0" "plot s" "df s = None"
  shows "breakout_down dt cl p h s =
           (if filter_down s ((h - p) / p) then
              Return (s\<lparr> spl := None, spl_dt := None, bars_since := 0 \<rparr>) []
            else
              Raise ValueError (s\<lparr> spl := None, spl_dt := None, bars_since := 0,
                                   coc := high s, coc_dt := high_dt s \<rparr>) [])"
  using assms by (simp add: breakout_down_def py_div_def Let_def record_line_def line_end_dt_def)

lemma reverse_up_off:
  assumes "\<not> plot s"
  shows "reverse_up dt hi cl s =
           Return (s\<lparr> trend := Some UP, coc := low s, coc_dt := low_dt s, low := None,
                      spl := None, spl_dt := None, high := Some hi, high_dt := Some dt,
                      bars_since := 0 \<rparr>)
             (if on_reversal s then [OnReversal (symbol s) dt (Some UP) cl (low s) (coc s)]
              else [])"
  using assms by (simp add: reverse_up_def switch_uptrend_def Let_def record_line_def)

lemma reverse_up_unbound:
  assumes "plot s" "df s = None"
  shows "reverse_up dt hi cl s =
           Raise ValueError
             (s\<lparr> trend := Some UP, coc := low s, coc_dt := low_dt s, low := None,
                 spl := None, spl_dt := None, high := Some hi, high_dt := Some dt,
                 bars_since := 0 \<rparr>) []"
  using assms
  by (simp add: reverse_up_def switch_uptrend_def Let_def record_line_def line_end_dt_def)

lemma identify_down_takes_new_low:
  assumes "trend s = Some DOWN" "\<not> truthy (spl s)" "and_lt (low s) lo"
  shows "identify dt hi lo cl s =
           Return (s\<lparr> low := Some lo, low_dt := Some dt, high := Some hi, high_dt := Some dt \<rparr>) []"
  using assms(1)
  by (cases rule: identify_down_cases[where dt = dt and lo = lo and hi = hi and cl = cl])
     (use assms in \<open>simp_all add: truthy_def\<close>)

lemma identify_down_stays:
  assumes "trend s = Some DOWN" "\<not> and_lt (spl s) cl" "truthy (spl s) \<or> \<not> and_lt (low s) lo"
    "\<not> and_gt (coc s) cl"
  shows "identify dt hi lo cl s =
           Return (pullback_down dt hi (if truthy (spl s) then track_down dt hi lo s else s)) []"
  using assms(1)
  by (cases rule: identify_down_cases[where dt = dt and lo = lo and hi = hi and cl = cl])
     (use assms in \<open>simp_all add: and_lt_def\<close>)

lemma unbound_down:
  assumes down: "trend s = Some DOWN" and pl: "plot s" and nodf: "df s = None"
  shows "raised (identify dt hi lo cl s) =
           (if emitted (identify dt hi lo cl
                          (s\<lparr> plot := False, on_reversal := True, on_breakout := True \<rparr>)) = []
            then None else Some ValueError)
         \<and> emitted (identify dt hi lo cl s) = []
         \<and> (post (identify dt hi lo cl s))\<lparr> plot := False, on_reversal := True, on_breakout := True \<rparr>
             = post (identify dt hi lo cl
                       (s\<lparr> plot := False, on_reversal := True, on_breakout := True \<rparr>))
         \<and> plot (post (identify dt hi lo cl s))"
proof -
  let ?f = "s\<lparr> plot := False, on_reversal := True, on_breakout := True \<rparr>"
  have down': "trend ?f = Some DOWN" using down by simp
  from down show ?thesis
  proof (cases rule: identify_down_cases[where dt = dt and lo = lo and hi = hi and cl = cl])
    case (breakout p h)
    have "\<exists>h'. high (track_down dt hi lo ?f) = Some h'
            \<and> identify_down dt hi lo cl ?f = breakout_down dt cl p h' (track_down dt hi lo ?f)"
      using breakout by (intro identify_down_breakout) simp_all
    then have f: "identify dt hi lo cl ?f = breakout_down dt cl p h (track_down dt hi lo ?f)"
      using down' breakout(4) by (auto simp: identify_def track_down_flags simp del: track_down_fields(4))
    show ?thesis
      unfolding f breakout(5) track_down_flags
      using breakout(2) pl nodf
      by (simp add: breakout_down_off breakout_down_unbound del: track_down_fields(2-5))
  next
    case new_low
    have f: "identify dt hi lo cl ?f =
        Return (?f\<lparr> low := Some lo, low_dt := Some dt, high := Some hi, high_dt := Some dt \<rparr>) []"
      using new_low down' by (intro identify_down_takes_new_low) simp_all
    show ?thesis unfolding f new_low(3) using pl by simp
  next
    case reversal
    have f: "identify dt hi lo cl ?f =
        reverse_up dt hi cl
          (pullback_down dt hi (if truthy (spl ?f) then track_down dt hi lo ?f else ?f))"
      using reversal down' by (intro identify_down_reverses) simp_all
    have r: "pullback_down dt hi (if truthy (spl ?f) then track_down dt hi lo ?f else ?f) =
        (pullback_down dt hi (if truthy (spl s) then track_down dt hi lo s else s))
          \<lparr> plot := False, on_reversal := True, on_breakout := True \<rparr>"
      by (simp add: track_down_flags pullback_down_flags)
    show ?thesis
      unfolding f r reversal(4)
      using pl nodf
      by (simp add: reverse_up_off reverse_up_unbound
            del: track_down_fields(2-5) pullback_down_fields(1-5))
  next
    case quiet
    have f: "identify dt hi lo cl ?f =
        Return (pullback_down dt hi (if truthy (spl ?f) then track_down dt hi lo ?f else ?f)) []"
      using quiet down' by (intro identify_down_stays) simp_all
    have r: "pullback_down dt hi (if truthy (spl ?f) then track_down dt hi lo ?f else ?f) =
        (pullback_down dt hi (if truthy (spl s) then track_down dt hi lo s else s))
          \<lparr> plot := False, on_reversal := True, on_breakout := True \<rparr>"
      by (simp add: track_down_flags pullback_down_flags)
    show ?thesis unfolding f r quiet(4) using pl by simp
  qed
qed

text \<open>What \<^verbatim>\<open>identify\<close> never assigns.\<close>

lemma breakout_frame:
  assumes "p \<noteq> 0"
  shows "on_reversal (post (breakout_up dt cl p l s)) = on_reversal s"
    and "on_breakout (post (breakout_up dt cl p l s)) = on_breakout s"
    and "on_reversal (post (breakout_down dt cl p l s)) = on_reversal s"
    and "on_breakout (post (breakout_down dt cl p l s)) = on_breakout s"
  using assms
  by (simp_all add: breakout_up_def breakout_down_def py_div_def outcome_of_pair Let_def)

lemma identify_keeps_hooks:
  "on_reversal (post (identify dt hi lo cl s)) = on_reversal s
   \<and> on_breakout (post (identify dt hi lo cl s)) = on_breakout s"
proof (cases "trend s")
  case None
  then show ?thesis by (simp add: identify_def identify_unset_flags)
next
  case (Some d)
  show ?thesis
  proof (cases d)
    case UP
    with Some have "trend s = Some UP" by simp
    then show ?thesis
      by (cases rule: identify_up_cases[where dt = dt and hi = hi and lo = lo and cl = cl])
         (simp_all add: breakout_frame post_reverse_down)
  next
    case DOWN
    with Some have "trend s = Some DOWN" by simp
    then show ?thesis
      by (cases rule: identify_down_cases[where dt = dt and hi = hi and lo = lo and cl = cl])
         (simp_all add: breakout_frame post_reverse_up)
  qed
qed

lemma unbound_any:
  assumes pl: "plot s" and nodf: "df s = None"
  shows "raised (identify dt hi lo cl s) =
           (if emitted (identify dt hi lo cl
                          (s\<lparr> plot := False, on_reversal := True, on_breakout := True \<rparr>)) = []
            then None else Some ValueError)
         \<and> emitted (identify dt hi lo cl s) = []
         \<and> (post (identify dt hi lo cl s))\<lparr> plot := False, on_reversal := True, on_breakout := True \<rparr>
             = post (identify dt hi lo cl
                       (s\<lparr> plot := False, on_reversal := True, on_breakout := True \<rparr>))
         \<and> plot (post (identify dt hi lo cl s))"
proof (cases "trend s")
  case None
  then show ?thesis using pl by (simp add: identify_def identify_unset_flags)
next
  case (Some d)
  then show ?thesis
    using unbound_up[OF _ pl nodf, of dt hi lo cl] unbound_down[OF _ pl nodf, of dt hi lo cl]
    by (cases d) simp_all
qed

subsection \<open>Recording off; a swing low of zero\<close>

lemma identify_returns_when_off:
  assumes "\<not> plot s"
  shows "raised (identify dt hi lo cl s) = None"
proof (cases "trend s")
  case None
  then show ?thesis
    by (cases rule: identify_unset_cases[where dt = dt and hi = hi and lo = lo and cl = cl]) simp_all
next
  case (Some d)
  show ?thesis
  proof (cases d)
    case UP
    with Some have "trend s = Some UP" by simp
    then show ?thesis
    proof (cases rule: identify_up_cases[where dt = dt and hi = hi and lo = lo and cl = cl])
      case (breakout p l)
      then show ?thesis using assms by (simp add: breakout_up_raised fst_record_line)
    next
      case reversal
      then show ?thesis using assms by (simp add: post_reverse_down switch_off)
    qed simp_all
  next
    case DOWN
    with Some have "trend s = Some DOWN" by simp
    then show ?thesis
    proof (cases rule: identify_down_cases[where dt = dt and hi = hi and lo = lo and cl = cl])
      case (breakout p h)
      then show ?thesis using assms by (simp add: breakout_down_raised fst_record_line)
    next
      case reversal
      then show ?thesis using assms by (simp add: post_reverse_up switch_off)
    qed simp_all
  qed
qed




section \<open>Main results\<close>

subsection \<open>Snapshot round trip\<close>

lemma unpack_pack: "unpack (pack s) s = s"
  by (simp add: pack_def unpack_def)

text \<open>
  C4. Taking a snapshot with \<^verbatim>\<open>pack\<close> and writing it back with \<^verbatim>\<open>unpack\<close> changes
  nothing in what follows: whatever bars come next, feeding them after the round trip
  ends in the same state, with the same hook calls and the same exception if one is
  raised, as feeding them without it. This holds from every state of the instance, the
  reachable ones among them.
\<close>

theorem pack_unpack_round_trip:
  "feed bars (unpack (pack s) s) = feed bars s"
  by (simp add: unpack_pack)

subsection \<open>Reversal\<close>




subsection \<open>Swing points follow the trend\<close>

text \<open>
  C5. In every state reachable from a constructed instance by \<^verbatim>\<open>identify\<close> and
  \<^verbatim>\<open>reset\<close> calls (and by assigning the hooks), \<^verbatim>\<open>sph\<close> is set only when the trend is
  UP and \<^verbatim>\<open>spl\<close> only when it is DOWN, so the two are never both set; and while the
  trend is unset, \<^verbatim>\<open>coc\<close>, \<^verbatim>\<open>sph\<close> and \<^verbatim>\<open>spl\<close> are all unset.
\<close>

theorem pivots_follow_trend:
  assumes "reachable s"
  shows "(sph s \<noteq> None \<longrightarrow> trend s = Some UP) \<and>
     (spl s \<noteq> None \<longrightarrow> trend s = Some DOWN) \<and>
     (sph s = None \<or> spl s = None) \<and>
     (trend s = None \<longrightarrow> coc s = None \<and> sph s = None \<and> spl s = None)"
proof -
  have c: "pivots_consistent s" using assms by (rule reachable_consistent)
  have up: "sph s \<noteq> None \<longrightarrow> trend s = Some UP"
    using c unfolding pivots_consistent_def by blast
  have down: "spl s \<noteq> None \<longrightarrow> trend s = Some DOWN"
    using c unfolding pivots_consistent_def by blast
  have unset: "trend s = None \<longrightarrow> coc s = None \<and> sph s = None \<and> spl s = None"
    using c unfolding pivots_consistent_def by blast
  have one: "sph s = None \<or> spl s = None"
  proof (rule ccontr)
    assume "\<not> (sph s = None \<or> spl s = None)"
    then have "trend s = Some UP" "trend s = Some DOWN" using up down by blast+
    then show False by simp
  qed
  show ?thesis using up down unset one by blast
qed

theorem pivots_follow_trend_witness:
  "reachable up_pending \<and> sph up_pending = Some 12 \<and> trend up_pending = Some UP
   \<and> spl up_pending = None
   \<and> reachable down_pending \<and> spl down_pending = Some 6 \<and> trend down_pending = Some DOWN
   \<and> sph down_pending = None
   \<and> reachable fresh \<and> trend fresh = None \<and> coc fresh = None \<and> sph fresh = None
   \<and> spl fresh = None"
proof -
  have f: "reachable fresh"
    unfolding fresh_def by (intro reach_hooks reach_init)
  show ?thesis
    using pivots_follow_trend[OF reachable_up_pending]
      pivots_follow_trend[OF reachable_down_pending] pivots_follow_trend[OF f]
      reachable_up_pending reachable_down_pending f
    by (simp add: up_pending_eq down_pending_eq fresh_eq)
qed

subsection \<open>A level of exactly zero\<close>

text \<open>
  C10. A tracked level whose price is exactly 0 is taken by \<^verbatim>\<open>identify\<close> as absent. No
  call ever raises \<^verbatim>\<open>ZeroDivisionError\<close>: the retracement is only divided by a swing
  point that passed the truth test. With the trend UP and \<^verbatim>\<open>sph = 0\<close> the block under
  \<^verbatim>\<open>if self.sph:\<close> is skipped, so the bar is handled by the formation block alone and no
  breakout is reported, whatever the close. With the trend UP and \<^verbatim>\<open>coc = 0\<close> the trend
  stays UP and no reversal is reported, also for a close below 0. The same holds for
  \<^verbatim>\<open>spl\<close> and \<^verbatim>\<open>coc\<close> under DOWN.
\<close>

theorem zero_level_treated_as_absent:
  "raised (identify dt hi lo cl s) \<noteq> Some ZeroDivisionError
   \<and> (trend s = Some UP \<and> sph s = Some 0 \<longrightarrow>
        identify dt hi lo cl s = up_formation dt hi lo cl s
        \<and> (\<forall>ev \<in> set (emitted (identify dt hi lo cl s)). \<not> is_breakout ev))
   \<and> (trend s = Some DOWN \<and> spl s = Some 0 \<longrightarrow>
        identify dt hi lo cl s = down_formation dt hi lo cl s
        \<and> (\<forall>ev \<in> set (emitted (identify dt hi lo cl s)). \<not> is_breakout ev))
   \<and> (trend s = Some UP \<and> coc s = Some 0 \<longrightarrow>
        trend (post (identify dt hi lo cl s)) = Some UP
        \<and> (\<forall>ev \<in> set (emitted (identify dt hi lo cl s)). \<not> is_reversal ev))
   \<and> (trend s = Some DOWN \<and> coc s = Some 0 \<longrightarrow>
        trend (post (identify dt hi lo cl s)) = Some DOWN
        \<and> (\<forall>ev \<in> set (emitted (identify dt hi lo cl s)). \<not> is_reversal ev))"
proof -
  have "raised (identify dt hi lo cl s) \<noteq> Some ZeroDivisionError"
    using identify_raises_lookup_errors_only[of dt hi lo cl s ZeroDivisionError] by auto
  then show ?thesis
    using zero_sph_skips_breakout[of s dt hi lo cl] zero_spl_skips_breakout[of s dt hi lo cl]
      zero_coc_up_never_reverses[of s dt hi lo cl] zero_coc_down_never_reverses[of s dt hi lo cl]
    by blast
qed

theorem zero_level_treated_as_absent_witness:
  "(trend up_zero_pivot = Some UP \<and> sph up_zero_pivot = Some 0)
   \<and> identify 3 2 (- 1) 1 up_zero_pivot = Return up_zero_pivot []
   \<and> (trend down_zero_pivot = Some DOWN \<and> spl down_zero_pivot = Some 0)
   \<and> identify 3 1 (- 2) (- 1) down_zero_pivot = Return down_zero_pivot []
   \<and> (trend up_zero_coc = Some UP \<and> coc up_zero_coc = Some 0)
   \<and> trend (post (identify 2 7 (- 2) (- 1) up_zero_coc)) = Some UP
   \<and> emitted (identify 2 7 (- 2) (- 1) up_zero_coc) = []
   \<and> (trend down_zero_coc = Some DOWN \<and> coc down_zero_coc = Some 0)
   \<and> trend (post (identify 2 2 (- 7) 1 down_zero_coc)) = Some DOWN
   \<and> emitted (identify 2 2 (- 7) 1 down_zero_coc) = []"
  using zero_level_treated_as_absent [where s = up_zero_pivot and dt = 3 and hi = 2
          and lo = "- 1" and cl = 1]
        zero_level_treated_as_absent [where s = down_zero_pivot and dt = 3 and hi = 1
          and lo = "- 2" and cl = "- 1"]
        zero_level_treated_as_absent [where s = up_zero_coc and dt = 2 and hi = 7
          and lo = "- 2" and cl = "- 1"]
        zero_level_treated_as_absent [where s = down_zero_coc and dt = 2 and hi = 2
          and lo = "- 7" and cl = 1]
  by (simp add: up_zero_pivot_eq down_zero_pivot_eq up_zero_coc_eq down_zero_coc_eq eval_defs)

subsection \<open>A breakout ends the bar\<close>

text \<open>
  C6, as amended. On a bar on which a breakout occurs, that is with a pending swing point
  that is not zero and the close beyond it, \<^verbatim>\<open>identify\<close> is the tracking head followed
  by the breakout handling and nothing else, whether the retrace filter suppresses the
  breakout or not: the trend is unchanged and no reversal is reported, no new swing point
  is formed, the bar count is 0, and both extremes are as tracking left them, so the
  formation block did not run. A bar with a pending swing point that is not zero and no
  breakout goes on, after tracking, to the formation block with its reversal check.
\<close>

theorem breakout_ends_the_bar:
  "(trend s = Some UP \<and> sph s = Some p \<and> p \<noteq> 0 \<and> cl > p \<longrightarrow>
      (let r = identify dt hi lo cl s
       in (\<exists>l. low (track_up dt hi lo s) = Some l
                \<and> r = breakout_up dt cl p l (track_up dt hi lo s))
          \<and> trend (post r) = Some UP \<and> sph (post r) = None \<and> bars_since (post r) = 0
          \<and> high (post r) = high (track_up dt hi lo s)
          \<and> low (post r) = low (track_up dt hi lo s)
          \<and> (\<forall>ev \<in> set (emitted r). is_breakout ev)))
   \<and> (trend s = Some UP \<and> sph s = Some p \<and> p \<noteq> 0 \<and> \<not> cl > p \<longrightarrow>
        identify dt hi lo cl s = up_formation dt hi lo cl (track_up dt hi lo s))
   \<and> (trend s = Some DOWN \<and> spl s = Some p \<and> p \<noteq> 0 \<and> cl < p \<longrightarrow>
      (let r = identify dt hi lo cl s
       in (\<exists>h. high (track_down dt hi lo s) = Some h
                \<and> r = breakout_down dt cl p h (track_down dt hi lo s))
          \<and> trend (post r) = Some DOWN \<and> spl (post r) = None \<and> bars_since (post r) = 0
          \<and> low (post r) = low (track_down dt hi lo s)
          \<and> high (post r) = high (track_down dt hi lo s)
          \<and> (\<forall>ev \<in> set (emitted r). is_breakout ev)))
   \<and> (trend s = Some DOWN \<and> spl s = Some p \<and> p \<noteq> 0 \<and> \<not> cl < p \<longrightarrow>
        identify dt hi lo cl s = down_formation dt hi lo cl (track_down dt hi lo s))"
proof -
  have a: "trend s = Some UP \<and> sph s = Some p \<and> p \<noteq> 0 \<and> cl > p \<longrightarrow>
      (let r = identify dt hi lo cl s
       in (\<exists>l. low (track_up dt hi lo s) = Some l
                \<and> r = breakout_up dt cl p l (track_up dt hi lo s))
          \<and> trend (post r) = Some UP \<and> sph (post r) = None \<and> bars_since (post r) = 0
          \<and> high (post r) = high (track_up dt hi lo s)
          \<and> low (post r) = low (track_up dt hi lo s)
          \<and> (\<forall>ev \<in> set (emitted r). is_breakout ev))"
    unfolding Let_def
    by (intro impI conjI; elim conjE) (rule up_breakout_ends_bar; assumption)+
  have b: "trend s = Some UP \<and> sph s = Some p \<and> p \<noteq> 0 \<and> \<not> cl > p \<longrightarrow>
        identify dt hi lo cl s = up_formation dt hi lo cl (track_up dt hi lo s)"
    by (intro impI; elim conjE) (rule up_no_breakout_falls_through; assumption)
  have c: "trend s = Some DOWN \<and> spl s = Some p \<and> p \<noteq> 0 \<and> cl < p \<longrightarrow>
      (let r = identify dt hi lo cl s
       in (\<exists>h. high (track_down dt hi lo s) = Some h
                \<and> r = breakout_down dt cl p h (track_down dt hi lo s))
          \<and> trend (post r) = Some DOWN \<and> spl (post r) = None \<and> bars_since (post r) = 0
          \<and> low (post r) = low (track_down dt hi lo s)
          \<and> high (post r) = high (track_down dt hi lo s)
          \<and> (\<forall>ev \<in> set (emitted r). is_breakout ev))"
    unfolding Let_def
    by (intro impI conjI; elim conjE) (rule down_breakout_ends_bar; assumption)+
  have d: "trend s = Some DOWN \<and> spl s = Some p \<and> p \<noteq> 0 \<and> \<not> cl < p \<longrightarrow>
        identify dt hi lo cl s = down_formation dt hi lo cl (track_down dt hi lo s)"
    by (intro impI; elim conjE) (rule down_no_breakout_falls_through; assumption)
  from a b c d show ?thesis by (intro conjI)
qed

theorem breakout_ends_the_bar_witness:
  "(trend up_pending = Some UP \<and> sph up_pending = Some 12 \<and> (12::real) \<noteq> 0
      \<and> (25 / 2 :: real) > 12)
   \<and> identify 3 13 10 (25 / 2) up_pending =
         Return (up_pending\<lparr> high := Some 13, high_dt := Some 3, sph := None, sph_dt := None,
                              coc := Some 9, coc_dt := Some 2, bars_since := 0 \<rparr>)
           [OnBreakout None 3 (Some UP) (25 / 2) (Some 12) (Some 9)]
   \<and> (\<not> (23 / 2 :: real) > 12)
   \<and> identify 3 (23 / 2) 10 (23 / 2) up_pending =
         up_formation 3 (23 / 2) 10 (23 / 2) (track_up 3 (23 / 2) 10 up_pending)
   \<and> (trend down_pending = Some DOWN \<and> spl down_pending = Some 6 \<and> (6::real) \<noteq> 0
      \<and> (11 / 2 :: real) < 6)
   \<and> identify 3 7 5 (11 / 2) down_pending =
         Return (down_pending\<lparr> low := Some 5, low_dt := Some 3, spl := None, spl_dt := None,
                                coc := Some 8, coc_dt := Some 2, bars_since := 0 \<rparr>)
           [OnBreakout None 3 (Some DOWN) (11 / 2) (Some 6) (Some 8)]
   \<and> (\<not> (13 / 2 :: real) < 6)
   \<and> identify 3 7 (13 / 2) (13 / 2) down_pending =
         down_formation 3 7 (13 / 2) (13 / 2) (track_down 3 7 (13 / 2) down_pending)"
  using breakout_ends_the_bar [where s = up_pending and p = 12 and cl = "25 / 2" and dt = 3
          and hi = 13 and lo = 10]
        breakout_ends_the_bar [where s = up_pending and p = 12 and cl = "23 / 2" and dt = 3
          and hi = "23 / 2" and lo = 10]
        breakout_ends_the_bar [where s = down_pending and p = 6 and cl = "11 / 2" and dt = 3
          and hi = 7 and lo = 5]
        breakout_ends_the_bar [where s = down_pending and p = 6 and cl = "13 / 2" and dt = 3
          and hi = 7 and lo = "13 / 2"]
  by (simp add: up_pending_eq down_pending_eq eval_defs)

text \<open>
  The claim as written takes any pending swing point. One of exactly 0 fails
  \<^verbatim>\<open>if self.sph:\<close>, so a close beyond it is no breakout for the code: the swing point
  stays, the bar goes through the formation block, which widens the opposite extreme and
  counts the bar.
\<close>

theorem breakout_claim_counterexample:
  "trend up_zero_pivot = Some UP \<and> sph up_zero_pivot = Some 0 \<and> (1 :: real) > 0
   \<and> low up_zero_pivot = Some (- 3) \<and> bars_since up_zero_pivot = 1
   \<and> identify 3 2 (- 4) 1 up_zero_pivot =
         Return (up_zero_pivot\<lparr> low := Some (- 4), low_dt := Some 3, bars_since := 2 \<rparr>) []
   \<and> trend down_zero_pivot = Some DOWN \<and> spl down_zero_pivot = Some 0 \<and> (- 1 :: real) < 0
   \<and> high down_zero_pivot = Some 3 \<and> bars_since down_zero_pivot = 1
   \<and> identify 3 4 (- 2) (- 1) down_zero_pivot =
         Return (down_zero_pivot\<lparr> high := Some 4, high_dt := Some 3, bars_since := 2 \<rparr>) []"
  by (simp add: up_zero_pivot_eq down_zero_pivot_eq eval_defs)

subsection \<open>The bar count\<close>

text \<open>
  C3, as amended. The bar count is 0 after a bar on which a breakout clears a swing point
  and after a bar on which the trend reverses; it is 1, not 0, after a bar on which a new
  swing point forms (and stays); and on every other bar processed while a swing point that
  passes the truth test is pending, that is with no breakout and no reversal, it grows by
  exactly one.
\<close>

theorem bars_since_pivot_rule:
  "(trend s = Some UP \<longrightarrow>
      (let r = identify dt hi lo cl s
       in (and_gt (sph s) cl \<longrightarrow> bars_since (post r) = 0)
          \<and> (trend (post r) = Some DOWN \<longrightarrow> bars_since (post r) = 0)
          \<and> (sph s = None \<and> sph (post r) \<noteq> None \<longrightarrow> bars_since (post r) = 1)
          \<and> (truthy (sph s) \<and> \<not> and_gt (sph s) cl \<and> trend (post r) = Some UP \<longrightarrow>
               bars_since (post r) = bars_since s + 1)))
   \<and> (trend s = Some DOWN \<longrightarrow>
      (let r = identify dt hi lo cl s
       in (and_lt (spl s) cl \<longrightarrow> bars_since (post r) = 0)
          \<and> (trend (post r) = Some UP \<longrightarrow> bars_since (post r) = 0)
          \<and> (spl s = None \<and> spl (post r) \<noteq> None \<longrightarrow> bars_since (post r) = 1)
          \<and> (truthy (spl s) \<and> \<not> and_lt (spl s) cl \<and> trend (post r) = Some DOWN \<longrightarrow>
               bars_since (post r) = bars_since s + 1)))"
proof -
  have u: "trend s = Some UP \<longrightarrow>
      (let r = identify dt hi lo cl s
       in (and_gt (sph s) cl \<longrightarrow> bars_since (post r) = 0)
          \<and> (trend (post r) = Some DOWN \<longrightarrow> bars_since (post r) = 0)
          \<and> (sph s = None \<and> sph (post r) \<noteq> None \<longrightarrow> bars_since (post r) = 1)
          \<and> (truthy (sph s) \<and> \<not> and_gt (sph s) cl \<and> trend (post r) = Some UP \<longrightarrow>
               bars_since (post r) = bars_since s + 1))"
  proof
    assume up: "trend s = Some UP"
    show "let r = identify dt hi lo cl s
       in (and_gt (sph s) cl \<longrightarrow> bars_since (post r) = 0)
          \<and> (trend (post r) = Some DOWN \<longrightarrow> bars_since (post r) = 0)
          \<and> (sph s = None \<and> sph (post r) \<noteq> None \<longrightarrow> bars_since (post r) = 1)
          \<and> (truthy (sph s) \<and> \<not> and_gt (sph s) cl \<and> trend (post r) = Some UP \<longrightarrow>
               bars_since (post r) = bars_since s + 1)"
      unfolding Let_def
    proof (intro conjI impI)
      assume "and_gt (sph s) cl"
      then show "bars_since (post (identify dt hi lo cl s)) = 0"
        by (rule up_bars_since(1)[OF up])
    next
      assume "trend (post (identify dt hi lo cl s)) = Some DOWN"
      then have "trend (post (identify dt hi lo cl s)) \<noteq> Some UP" by simp
      then show "bars_since (post (identify dt hi lo cl s)) = 0"
        by (rule up_bars_since(2)[OF up])
    next
      assume "sph s = None \<and> sph (post (identify dt hi lo cl s)) \<noteq> None"
      then show "bars_since (post (identify dt hi lo cl s)) = 1"
        using up_bars_since(3)[OF up, of dt hi lo cl] by blast
    next
      assume "truthy (sph s) \<and> \<not> and_gt (sph s) cl
          \<and> trend (post (identify dt hi lo cl s)) = Some UP"
      then show "bars_since (post (identify dt hi lo cl s)) = bars_since s + 1"
        using up_bars_since(4)[OF up, of cl dt hi lo] by blast
    qed
  qed
  have d: "trend s = Some DOWN \<longrightarrow>
      (let r = identify dt hi lo cl s
       in (and_lt (spl s) cl \<longrightarrow> bars_since (post r) = 0)
          \<and> (trend (post r) = Some UP \<longrightarrow> bars_since (post r) = 0)
          \<and> (spl s = None \<and> spl (post r) \<noteq> None \<longrightarrow> bars_since (post r) = 1)
          \<and> (truthy (spl s) \<and> \<not> and_lt (spl s) cl \<and> trend (post r) = Some DOWN \<longrightarrow>
               bars_since (post r) = bars_since s + 1))"
  proof
    assume down: "trend s = Some DOWN"
    show "let r = identify dt hi lo cl s
       in (and_lt (spl s) cl \<longrightarrow> bars_since (post r) = 0)
          \<and> (trend (post r) = Some UP \<longrightarrow> bars_since (post r) = 0)
          \<and> (spl s = None \<and> spl (post r) \<noteq> None \<longrightarrow> bars_since (post r) = 1)
          \<and> (truthy (spl s) \<and> \<not> and_lt (spl s) cl \<and> trend (post r) = Some DOWN \<longrightarrow>
               bars_since (post r) = bars_since s + 1)"
      unfolding Let_def
    proof (intro conjI impI)
      assume "and_lt (spl s) cl"
      then show "bars_since (post (identify dt hi lo cl s)) = 0"
        by (rule down_bars_since(1)[OF down])
    next
      assume "trend (post (identify dt hi lo cl s)) = Some UP"
      then have "trend (post (identify dt hi lo cl s)) \<noteq> Some DOWN" by simp
      then show "bars_since (post (identify dt hi lo cl s)) = 0"
        by (rule down_bars_since(2)[OF down])
    next
      assume "spl s = None \<and> spl (post (identify dt hi lo cl s)) \<noteq> None"
      then show "bars_since (post (identify dt hi lo cl s)) = 1"
        using down_bars_since(3)[OF down, of dt hi lo cl] by blast
    next
      assume "truthy (spl s) \<and> \<not> and_lt (spl s) cl
          \<and> trend (post (identify dt hi lo cl s)) = Some DOWN"
      then show "bars_since (post (identify dt hi lo cl s)) = bars_since s + 1"
        using down_bars_since(4)[OF down, of cl dt hi lo] by blast
    qed
  qed
  from u d show ?thesis by (rule conjI)
qed

theorem bars_since_pivot_rule_witness:
  "trend up_pending = Some UP \<and> trend up_started = Some UP
   \<and> and_gt (sph up_pending) (25 / 2)
   \<and> bars_since (post (identify 3 13 10 (25 / 2) up_pending)) = 0
   \<and> trend (post (identify 3 11 7 (15 / 2) up_pending)) = Some DOWN
   \<and> bars_since (post (identify 3 11 7 (15 / 2) up_pending)) = 0
   \<and> sph up_started = None \<and> sph (post (identify 2 11 9 10 up_started)) = Some 12
   \<and> bars_since (post (identify 2 11 9 10 up_started)) = 1
   \<and> truthy (sph up_pending) \<and> \<not> and_gt (sph up_pending) (23 / 2)
   \<and> trend (post (identify 3 (23 / 2) 10 (23 / 2) up_pending)) = Some UP
   \<and> bars_since (post (identify 3 (23 / 2) 10 (23 / 2) up_pending)) = bars_since up_pending + 1
   \<and> trend down_pending = Some DOWN \<and> trend down_started = Some DOWN
   \<and> and_lt (spl down_pending) (11 / 2)
   \<and> bars_since (post (identify 3 7 5 (11 / 2) down_pending)) = 0
   \<and> trend (post (identify 3 11 7 (21 / 2) down_pending)) = Some UP
   \<and> bars_since (post (identify 3 11 7 (21 / 2) down_pending)) = 0
   \<and> spl down_started = None \<and> spl (post (identify 2 8 (13 / 2) 7 down_started)) = Some 6
   \<and> bars_since (post (identify 2 8 (13 / 2) 7 down_started)) = 1
   \<and> truthy (spl down_pending) \<and> \<not> and_lt (spl down_pending) (13 / 2)
   \<and> trend (post (identify 3 7 (13 / 2) (13 / 2) down_pending)) = Some DOWN
   \<and> bars_since (post (identify 3 7 (13 / 2) (13 / 2) down_pending))
         = bars_since down_pending + 1"
  using bars_since_pivot_rule [where s = up_pending and dt = 3 and hi = 13 and lo = 10
          and cl = "25 / 2"]
        bars_since_pivot_rule [where s = up_pending and dt = 3 and hi = 11 and lo = 7
          and cl = "15 / 2"]
        bars_since_pivot_rule [where s = up_started and dt = 2 and hi = 11 and lo = 9
          and cl = 10]
        bars_since_pivot_rule [where s = up_pending and dt = 3 and hi = "23 / 2" and lo = 10
          and cl = "23 / 2"]
        bars_since_pivot_rule [where s = down_pending and dt = 3 and hi = 7 and lo = 5
          and cl = "11 / 2"]
        bars_since_pivot_rule [where s = down_pending and dt = 3 and hi = 11 and lo = 7
          and cl = "21 / 2"]
        bars_since_pivot_rule [where s = down_started and dt = 2 and hi = 8 and lo = "13 / 2"
          and cl = 7]
        bars_since_pivot_rule [where s = down_pending and dt = 3 and hi = 7 and lo = "13 / 2"
          and cl = "13 / 2"]
  by (simp add: up_pending_eq up_started_eq down_pending_eq down_started_eq eval_defs)

text \<open>
  The claim as written gives 0 after a bar on which a new swing point forms. The code
  restarts the count and then counts that bar when it seeds the opposite extreme, so the
  count is 1: the third bar of the sample run forms the swing high 12. And a pending swing
  point of exactly 0 is not counted at all: the bar below leaves the count at 1.
\<close>

theorem bars_since_claim_counterexample:
  "sph up_started = None \<and> bars_since up_started = 0
   \<and> sph (post (identify 2 11 9 10 up_started)) = Some 12
   \<and> trend (post (identify 2 11 9 10 up_started)) = Some UP
   \<and> bars_since (post (identify 2 11 9 10 up_started)) = 1
   \<and> trend up_zero_pivot = Some UP \<and> sph up_zero_pivot = Some 0
   \<and> bars_since up_zero_pivot = 1
   \<and> identify 3 2 (- 1) 1 up_zero_pivot = Return up_zero_pivot []"
  by (simp add: up_started_eq up_zero_pivot_eq eval_defs)

subsection \<open>\<^verbatim>\<open>reset\<close>\<close>

text \<open>
  C8, as amended. \<^verbatim>\<open>reset\<close> sets the trend, both extremes, \<^verbatim>\<open>coc\<close>, \<^verbatim>\<open>sph\<close>,
  \<^verbatim>\<open>spl\<close> and their five timestamps to \<^verbatim>\<open>None\<close> and the bar count to 0, the values
  of a constructed instance. It leaves the symbol as it is, and likewise the two
  thresholds, the hooks, the logger and the recording flag. When recording is on it
  empties the recorded lines and colours and unbinds the table; when recording is off it
  leaves those three alone.
\<close>

theorem reset_clears_trend_state:
  "trend (reset s) = None \<and> high (reset s) = None \<and> low (reset s) = None
   \<and> coc (reset s) = None \<and> sph (reset s) = None \<and> spl (reset s) = None
   \<and> high_dt (reset s) = None \<and> low_dt (reset s) = None \<and> coc_dt (reset s) = None
   \<and> sph_dt (reset s) = None \<and> spl_dt (reset s) = None \<and> bars_since (reset s) = 0
   \<and> symbol (reset s) = symbol s
   \<and> retrace_threshold (reset s) = retrace_threshold s
   \<and> sideways_threshold (reset s) = sideways_threshold s
   \<and> on_reversal (reset s) = on_reversal s \<and> on_breakout (reset s) = on_breakout s
   \<and> debug (reset s) = debug s \<and> plot (reset s) = plot s
   \<and> (plot s \<longrightarrow> plot_lines (reset s) = [] \<and> plot_colors (reset s) = [] \<and> df (reset s) = None)
   \<and> (\<not> plot s \<longrightarrow> plot_lines (reset s) = plot_lines s \<and> plot_colors (reset s) = plot_colors s
         \<and> df (reset s) = df s)"
  by (simp add: reset_def Let_def)

theorem reset_clears_trend_state_witness:
  "plot recorded \<and> plot_lines recorded = [((Some 2, Some 9), (3, Some 9))]
   \<and> reset recorded =
        (init (Some 5) 20 False)\<lparr> symbol := Some ''ACME'', plot := True, on_reversal := True,
                                    on_breakout := True \<rparr>
   \<and> \<not> plot up_pending \<and> reset up_pending = fresh"
  using reset_clears_trend_state [of recorded] reset_clears_trend_state [of up_pending]
  by (simp add: recorded_eq up_pending_eq fresh_eq init_def reset_def Let_def)

text \<open>
  The claim as written has \<^verbatim>\<open>reset\<close> clear the symbol as well. The code leaves it: after
  \<^verbatim>\<open>run\<close> has set it, it survives \<^verbatim>\<open>reset\<close>, while a constructed instance has none.
\<close>

theorem reset_claim_counterexample:
  "symbol (reset (post (run ''ACME'' [] False fresh))) = Some ''ACME''
   \<and> symbol (init (Some 5) 20 False) = None"
  by (simp add: fresh_eq init_def reset_def run_def Let_def)

subsection \<open>The retrace filter\<close>

text \<open>
  C2. The claim has a breakout suppressed exactly when the magnitude of the retracement
  fraction is below the threshold, in both trends. The UP block does that
  (\<open>up_breakout_filter\<close>). The DOWN block compares the signed fraction
  (\<open>down_breakout_filter\<close>), so a fraction that is negative is always below a
  positive threshold. In the run below, on negative prices, the swing low is -12 and the
  tracked high -10: the fraction is -1/6, its magnitude is not below 1/20, and the
  breakout at the close -12.5 is suppressed all the same: \<^verbatim>\<open>coc\<close> stays and no hook is
  called.
\<close>

theorem down_filter_drops_large_retrace:
  "trend down_negative = Some DOWN \<and> spl down_negative = Some (- 12)
   \<and> retrace_threshold down_negative = Some (1 / 20) \<and> (- 25 / 2 :: real) < - 12
   \<and> high (track_down 3 (- 11) (- 13) down_negative) = Some (- 10)
   \<and> (- 10 - (- 12)) / (- 12) = (- 1 / 6 :: real)
   \<and> \<not> \<bar>- 1 / 6 :: real\<bar> < 1 / 20
   \<and> \<not> filter_up down_negative (- 1 / 6) \<and> filter_down down_negative (- 1 / 6)
   \<and> identify 3 (- 11) (- 13) (- 25 / 2) down_negative =
         Return (down_negative\<lparr> low := Some (- 13), low_dt := Some 3, spl := None,
                                 spl_dt := None, bars_since := 0 \<rparr>) []"
  by (simp add: down_negative_eq eval_defs)

subsection \<open>\<^verbatim>\<open>is_sideways\<close>\<close>




subsection \<open>Recording without a table\<close>

text \<open>
  C9, as amended. With recording on and no table bound, a bar that is a breakout passing
  the retrace filter, or a reversal, raises \<^verbatim>\<open>ValueError\<close> to the caller, and no
  other bar raises; no hook is called and nothing is appended to the recorded lines. The
  assignments of that breakout or reversal have been made by then: the instance is left
  as the same bar leaves it with recording off, the recording flag apart. (Below, the
  run \<open>r'\<close> with recording off and both hooks assigned reports something exactly on
  those bars.)
\<close>

theorem unbound_history_raises:
  "plot s \<and> df s = None \<longrightarrow>
     (let r = identify dt hi lo cl s;
          r' = identify dt hi lo cl (s\<lparr> plot := False, on_reversal := True, on_breakout := True \<rparr>)
      in raised r = (if emitted r' = [] then None else Some ValueError)
         \<and> emitted r = []
         \<and> post r = (post r')\<lparr> plot := True, on_reversal := on_reversal s,
                                on_breakout := on_breakout s \<rparr>)"
proof
  assume h: "plot s \<and> df s = None"
  let ?r = "identify dt hi lo cl s"
  let ?r' = "identify dt hi lo cl (s\<lparr> plot := False, on_reversal := True, on_breakout := True \<rparr>)"
  have a: "raised ?r = (if emitted ?r' = [] then None else Some ValueError)
      \<and> emitted ?r = []
      \<and> (post ?r)\<lparr> plot := False, on_reversal := True, on_breakout := True \<rparr> = post ?r'
      \<and> plot (post ?r)"
    using h by (intro unbound_any) simp_all
  have "post ?r = (post ?r)\<lparr> plot := False, on_reversal := True, on_breakout := True \<rparr>
      \<lparr> plot := True, on_reversal := on_reversal (post ?r), on_breakout := on_breakout (post ?r) \<rparr>"
    using a by (intro restore_flags[symmetric]) simp
  also have "\<dots> = (post ?r')\<lparr> plot := True, on_reversal := on_reversal s,
                                on_breakout := on_breakout s \<rparr>"
    using a identify_keeps_hooks[of dt hi lo cl s] by simp
  finally have "post ?r = (post ?r')\<lparr> plot := True, on_reversal := on_reversal s,
                                on_breakout := on_breakout s \<rparr>" .
  with a show "let r = ?r; r' = ?r'
      in raised r = (if emitted r' = [] then None else Some ValueError)
         \<and> emitted r = []
         \<and> post r = (post r')\<lparr> plot := True, on_reversal := on_reversal s,
                                on_breakout := on_breakout s \<rparr>"
    by (simp add: Let_def)
qed

theorem unbound_history_raises_witness:
  "(plot unbound_pending \<and> df unbound_pending = None)
   \<and> identify 3 13 10 (25 / 2) unbound_pending =
         Raise ValueError
           (unbound_pending\<lparr> high := Some 13, high_dt := Some 3, sph := None, sph_dt := None,
                               coc := Some 9, coc_dt := Some 2, bars_since := 0 \<rparr>) []
   \<and> identify 3 13 10 (25 / 2)
         (unbound_pending\<lparr> plot := False, on_reversal := True, on_breakout := True \<rparr>) =
         Return
           (unbound_pending\<lparr> plot := False, high := Some 13, high_dt := Some 3, sph := None,
                               sph_dt := None, coc := Some 9, coc_dt := Some 2,
                               bars_since := 0 \<rparr>)
           [OnBreakout (Some ''ACME'') 3 (Some UP) (25 / 2) (Some 12) (Some 9)]
   \<and> identify 3 11 7 (15 / 2) unbound_pending =
         Raise ValueError
           (unbound_pending\<lparr> trend := Some DOWN, coc := Some 12, coc_dt := Some 1,
                               high := None, sph := None, sph_dt := None, low := Some 7,
                               low_dt := Some 3, bars_since := 0 \<rparr>) []
   \<and> identify 3 (23 / 2) 10 (23 / 2) unbound_pending =
         Return (unbound_pending\<lparr> bars_since := 2 \<rparr>) []"
  using unbound_history_raises [where s = unbound_pending and dt = 3 and hi = 13 and lo = 10
          and cl = "25 / 2"]
        unbound_history_raises [where s = unbound_pending and dt = 3 and hi = 11 and lo = 7
          and cl = "15 / 2"]
        unbound_history_raises [where s = unbound_pending and dt = 3 and hi = "23 / 2"
          and lo = 10 and cl = "23 / 2"]
  by (simp add: unbound_pending_eq eval_defs line_end_dt_def)

text \<open>
  The claim as written has the failed call leave the state unchanged. The swing high has
  been cleared and \<^verbatim>\<open>coc\<close> moved by the time the lookup raises.
\<close>

theorem unbound_claim_counterexample:
  "plot unbound_pending \<and> df unbound_pending = None
   \<and> raised (identify 3 13 10 (25 / 2) unbound_pending) = Some ValueError
   \<and> post (identify 3 13 10 (25 / 2) unbound_pending) \<noteq> unbound_pending
   \<and> sph unbound_pending = Some 12 \<and> coc unbound_pending = Some 8
   \<and> sph (post (identify 3 13 10 (25 / 2) unbound_pending)) = None
   \<and> coc (post (identify 3 13 10 (25 / 2) unbound_pending)) = Some 9"
  by (simp add: unbound_pending_eq eval_defs line_end_dt_def)

end
